theory Spec2Isabelle
  imports Main "HOL-Library.AList"
begin

section \<open>Data model\<close>

text \<open>
  Timestamps are milliseconds since the epoch (\<open>Date.getTime()\<close>), as integers.
  A \<open>Record<string, string>\<close> is a finite dictionary, modelled as a map; the object
  spread \<open>{...a, ...b}\<close> is the right-biased union \<open>a ++ b\<close>.
\<close>

type_synonym Dict = "string \<rightharpoonup> string"

datatype SessionStatus = ACTIVE | MANUAL_LOGIN_PENDING | EXPIRED | INVALID

record Metadata =
  userAgent :: "string option"
  ipAddress :: "string option"
  loginMethod :: "string option"

text \<open>\<open>SessionData\<close>; the field \<open>id\<close> is called \<open>sid\<close> (\<open>id\<close> is the identity of HOL).\<close>

record SessionData =
  sid :: string
  username :: string
  status :: SessionStatus
  createdAt :: int
  updatedAt :: int
  expiresAt :: int
  loginCompletedAt :: "int option"
  cookies :: Dict
  tokens :: Dict
  sessionStorage :: Dict
  localStorage :: Dict
  storageState :: "string option"
  metadata :: "Metadata option"

record SessionCreateOptions =
  c_username :: string
  c_status :: "SessionStatus option"
  c_lifetimeMinutes :: "int option"
  c_metadata :: "Metadata option"

record SessionUpdateOptions =
  u_status :: "SessionStatus option"
  u_cookies :: "Dict option"
  u_tokens :: "Dict option"
  u_sessionStorage :: "Dict option"
  u_localStorage :: "Dict option"
  u_storageState :: "string option"
  u_loginCompletedAt :: "int option"

record SessionConfig =
  lifetimeMinutes :: int
  maxSessions :: int

subsection \<open>Errors\<close>

text \<open>
  The error of the HTTP client: \<open>code\<close> is the transport code (\<open>'ECONNABORTED'\<close>,
  \<open>'ETIMEDOUT'\<close>, ...), \<open>status\<close> the numeric HTTP status when there is one, and
  \<open>response\<close> the upstream status and body when the server answered.
\<close>

record AxiosError =
  ax_code :: "string option"
  ax_status :: "int option"
  ax_response :: "(int \<times> string) option"

text \<open>
  The \<open>details\<close> an \<open>ExternalServiceError\<close> carries: nothing, the client's error object
  itself, or the object \<open>{status, data}\<close> built from the upstream response.
\<close>

datatype Details = NoDetails | AxiosDetails AxiosError | StatusData int string

text \<open>
  The class hierarchy under \<open>AppError\<close>, one constructor per class that is thrown, with the
  constructor's arguments; \<open>ZodError\<close> is the validation failure of the input schema and
  \<open>OtherError\<close> any other \<open>Error\<close> with its message.
\<close>

datatype Thrown =
    AppError string nat "string option"
  | AuthenticationError string
  | NotFoundError string
  | ExternalServiceError string Details
  | CircuitBreakerError string
  | ZodError
  | OtherError string

fun isNotFoundError :: "Thrown \<Rightarrow> bool" where
  "isNotFoundError (NotFoundError _) = True"
| "isNotFoundError _ = False"

section \<open>The durable store\<close>

text \<open>
  The store is the key-value interface the session service programs against. Session records
  live under the prefix \<open>session:\<close> and are keyed here by session identifier; each entry keeps
  the time-to-live in seconds that \<open>setex\<close> was given and the session that was serialised.
  The per-user sets live under \<open>user:<name>:sessions\<close> and are keyed by user name; a set is
  kept as a duplicate-free list, in the order \<open>smembers\<close> hands the members out.
  Eviction of a key whose time-to-live has run out is an action of the store, not of the
  service: a record is stored for as long as \<open>get\<close> returns it.
\<close>

record Redis =
  strings :: "(string \<times> (int \<times> SessionData)) list"
  sets :: "string \<Rightarrow> string list"

definition redis_get :: "Redis \<Rightarrow> string \<Rightarrow> SessionData option" where
  "redis_get r key = map_option snd (map_of (strings r) key)"

definition redis_setex :: "Redis \<Rightarrow> string \<Rightarrow> int \<Rightarrow> SessionData \<Rightarrow> Redis" where
  "redis_setex r key ttl v = r\<lparr>strings := AList.update key (ttl, v) (strings r)\<rparr>"

definition redis_del :: "Redis \<Rightarrow> string \<Rightarrow> Redis" where
  "redis_del r key = r\<lparr>strings := AList.delete key (strings r)\<rparr>"

definition redis_keys :: "Redis \<Rightarrow> string list" where
  "redis_keys r = map fst (strings r)"

definition redis_sadd :: "Redis \<Rightarrow> string \<Rightarrow> string \<Rightarrow> Redis" where
  "redis_sadd r user member = r\<lparr>sets := (sets r)(user := List.insert member (sets r user))\<rparr>"

definition redis_srem :: "Redis \<Rightarrow> string \<Rightarrow> string \<Rightarrow> Redis" where
  "redis_srem r user member = r\<lparr>sets := (sets r)(user := removeAll member (sets r user))\<rparr>"

definition redis_smembers :: "Redis \<Rightarrow> string \<Rightarrow> string list" where
  "redis_smembers r user = sets r user"

section \<open>SessionService\<close>

definition getActiveSessionCount :: "Redis \<Rightarrow> nat" where
  "getActiveSessionCount r = length (redis_keys r)"

text \<open>
  \<open>createSession\<close>: \<open>sessionId\<close> is the identifier \<open>uuidv4()\<close> returns and \<open>now\<close> the
  reading of \<open>new Date()\<close>. A lifetime of \<open>0\<close> is falsy and falls back to the configured one.
\<close>

definition createSession ::
  "SessionConfig \<Rightarrow> string \<Rightarrow> int \<Rightarrow> Redis \<Rightarrow> SessionCreateOptions \<Rightarrow> (Thrown + SessionData) \<times> Redis"
where
  "createSession cfg sessionId now r options =
    (let lifetime = (case c_lifetimeMinutes options of
                       None \<Rightarrow> lifetimeMinutes cfg
                     | Some m \<Rightarrow> if m = 0 then lifetimeMinutes cfg else m);
         expires = now + lifetime * 60000;
         session = \<lparr> sid = sessionId,
                     username = c_username options,
                     status = (case c_status options of None \<Rightarrow> ACTIVE | Some s \<Rightarrow> s),
                     createdAt = now,
                     updatedAt = now,
                     expiresAt = expires,
                     loginCompletedAt = None,
                     cookies = Map.empty,
                     tokens = Map.empty,
                     sessionStorage = Map.empty,
                     localStorage = Map.empty,
                     storageState = None,
                     metadata = c_metadata options \<rparr>;
         sessionCount = getActiveSessionCount r
     in if int sessionCount \<ge> maxSessions cfg
        then (Inl (AppError ''Maximum session limit reached'' 503 (Some ''MAX_SESSIONS_EXCEEDED'')), r)
        else
          let ttl = (expires - now) div 1000;
              r1 = redis_setex r sessionId ttl session;
              r2 = redis_sadd r1 (c_username options) sessionId
          in (Inr session, r2))"

text \<open>
  \<open>getSession\<close> and \<open>deleteSession\<close> call each other: \<open>getSession\<close> calls \<open>deleteSession\<close>
  on an expired record, and \<open>deleteSession\<close> starts by calling \<open>getSession\<close>. Nothing in the
  source bounds that recursion, so both take fuel, the depth of calls still allowed, and
  \<open>None\<close> says that the call has not returned within it. \<open>now\<close> is the reading of the wall
  clock; the clock only moves forward, so a record found expired at one reading is expired
  at every later one, and one reading stands for those of the nested calls.
\<close>

fun getSession :: "nat \<Rightarrow> int \<Rightarrow> Redis \<Rightarrow> string \<Rightarrow> ((Thrown + SessionData) \<times> Redis) option"
and deleteSession :: "nat \<Rightarrow> int \<Rightarrow> Redis \<Rightarrow> string \<Rightarrow> ((Thrown + unit) \<times> Redis) option"
where
  "getSession 0 now r sessionId = None"
| "getSession (Suc fuel) now r sessionId =
    (case redis_get r sessionId of
       None \<Rightarrow> Some (Inl (NotFoundError ''Session''), r)
     | Some session \<Rightarrow>
         if expiresAt session < now then
           (case deleteSession fuel now r sessionId of
              None \<Rightarrow> None
            | Some (Inl e, r') \<Rightarrow> Some (Inl e, r')
            | Some (Inr u, r') \<Rightarrow> Some (Inl (AuthenticationError ''Session expired''), r'))
         else Some (Inr session, r))"
| "deleteSession 0 now r sessionId = None"
| "deleteSession (Suc fuel) now r sessionId =
    (case getSession fuel now r sessionId of
       None \<Rightarrow> None
     | Some (Inl e, r') \<Rightarrow>
         if isNotFoundError e then Some (Inr (), r') else Some (Inl e, r')
     | Some (Inr session, r') \<Rightarrow>
         Some (Inr (), redis_srem (redis_del r' sessionId) (username session) sessionId))"

text \<open>
  The merge at the head of \<open>updateSession\<close>: each field of the options that is supplied is
  applied in the order of the source, then \<open>updatedAt\<close> is stamped with the clock reading
  \<open>now'\<close>. The field \<open>storageState\<close> of the options is not looked at.
\<close>

definition applyUpdates :: "SessionData \<Rightarrow> SessionUpdateOptions \<Rightarrow> int \<Rightarrow> SessionData" where
  "applyUpdates session updates now' =
    (let s1 = (case u_status updates of None \<Rightarrow> session | Some st \<Rightarrow> session\<lparr>status := st\<rparr>);
         s2 = (case u_cookies updates of None \<Rightarrow> s1 | Some c \<Rightarrow> s1\<lparr>cookies := cookies s1 ++ c\<rparr>);
         s3 = (case u_tokens updates of None \<Rightarrow> s2 | Some t \<Rightarrow> s2\<lparr>tokens := tokens s2 ++ t\<rparr>);
         s4 = (case u_sessionStorage updates of None \<Rightarrow> s3
               | Some m \<Rightarrow> s3\<lparr>sessionStorage := sessionStorage s3 ++ m\<rparr>);
         s5 = (case u_localStorage updates of None \<Rightarrow> s4
               | Some m \<Rightarrow> s4\<lparr>localStorage := localStorage s4 ++ m\<rparr>);
         s6 = (case u_loginCompletedAt updates of None \<Rightarrow> s5
               | Some d \<Rightarrow> s5\<lparr>loginCompletedAt := Some d\<rparr>)
     in s6\<lparr>updatedAt := now'\<rparr>)"

text \<open>
  \<open>updateSession\<close>: \<open>now\<close> is the clock reading inside \<open>getSession\<close>, \<open>now'\<close> the one of
  the two adjacent statements that stamp \<open>updatedAt\<close> and compute the remaining
  time-to-live.
\<close>

definition updateSession ::
  "nat \<Rightarrow> int \<Rightarrow> int \<Rightarrow> Redis \<Rightarrow> string \<Rightarrow> SessionUpdateOptions \<Rightarrow>
     ((Thrown + SessionData) \<times> Redis) option"
where
  "updateSession fuel now now' r sessionId updates =
    (case getSession fuel now r sessionId of
       None \<Rightarrow> None
     | Some (Inl e, r') \<Rightarrow> Some (Inl e, r')
     | Some (Inr session0, r') \<Rightarrow>
         let session = applyUpdates session0 updates now';
             ttl = (expiresAt session - now') div 1000
         in Some (Inr session, if ttl > 0 then redis_setex r' sessionId ttl session else r'))"

definition extendSession ::
  "nat \<Rightarrow> int \<Rightarrow> int \<Rightarrow> Redis \<Rightarrow> string \<Rightarrow> int \<Rightarrow> ((Thrown + SessionData) \<times> Redis) option"
where
  "extendSession fuel now now' r sessionId additionalMinutes =
    (case getSession fuel now r sessionId of
       None \<Rightarrow> None
     | Some (Inl e, r') \<Rightarrow> Some (Inl e, r')
     | Some (Inr session, r') \<Rightarrow>
         let newExpiresAt = expiresAt session + additionalMinutes * 60000;
             s1 = session\<lparr>expiresAt := newExpiresAt, updatedAt := now'\<rparr>;
             ttl = (newExpiresAt - now') div 1000
         in Some (Inr s1, redis_setex r' sessionId ttl s1))"

text \<open>
  \<open>getUserSessions\<close>: the loop over the members of the user's set, with the sessions
  collected so far. Any error of \<open>getSession\<close> is caught and the member is removed from
  the set.
\<close>

fun getUserSessions_loop ::
  "nat \<Rightarrow> int \<Rightarrow> string \<Rightarrow> string list \<Rightarrow> SessionData list \<Rightarrow> Redis \<Rightarrow>
     (SessionData list \<times> Redis) option"
where
  "getUserSessions_loop fuel now user [] sessions r = Some (sessions, r)"
| "getUserSessions_loop fuel now user (sessionId # rest) sessions r =
    (case getSession fuel now r sessionId of
       None \<Rightarrow> None
     | Some (Inr session, r') \<Rightarrow> getUserSessions_loop fuel now user rest (sessions @ [session]) r'
     | Some (Inl e, r') \<Rightarrow>
         getUserSessions_loop fuel now user rest sessions (redis_srem r' user sessionId))"

definition getUserSessions ::
  "nat \<Rightarrow> int \<Rightarrow> Redis \<Rightarrow> string \<Rightarrow> (SessionData list \<times> Redis) option"
where
  "getUserSessions fuel now r user =
     getUserSessions_loop fuel now user (redis_smembers r user) [] r"

text \<open>The signed token: the payload \<open>{sessionId, username}\<close>; the signature is opaque.\<close>

definition generateToken :: "string \<Rightarrow> string \<Rightarrow> string \<times> string" where
  "generateToken sessionId user = (sessionId, user)"

text \<open>
  \<open>createSession\<close> above runs from its first statement to its last on one store. In the
  source it asks the store three times, with an \<open>await\<close> each time, and other calls may run
  between any two of them: it counts the keys, it writes the record, and it enters the
  identifier in the owner's set. \<open>Creation\<close> is a call of \<open>createSession\<close> in flight: just
  called, the keys counted, the record written, or finished with its result. \<open>newSession\<close>
  is the session object the call builds before it asks for the count, and \<open>createStep\<close> takes
  a creation over its next request to the store.
\<close>

datatype Creation =
    Started string int SessionCreateOptions
  | Counted SessionData nat
  | Written SessionData
  | Finished "Thrown + SessionData"

definition newSession :: "SessionConfig \<Rightarrow> string \<Rightarrow> int \<Rightarrow> SessionCreateOptions \<Rightarrow> SessionData" where
  "newSession cfg sessionId now options =
     \<lparr> sid = sessionId,
       username = c_username options,
       status = (case c_status options of None \<Rightarrow> ACTIVE | Some s \<Rightarrow> s),
       createdAt = now,
       updatedAt = now,
       expiresAt = now + (case c_lifetimeMinutes options of
                            None \<Rightarrow> lifetimeMinutes cfg
                          | Some m \<Rightarrow> if m = 0 then lifetimeMinutes cfg else m) * 60000,
       loginCompletedAt = None,
       cookies = Map.empty,
       tokens = Map.empty,
       sessionStorage = Map.empty,
       localStorage = Map.empty,
       storageState = None,
       metadata = c_metadata options \<rparr>"

fun createStep :: "SessionConfig \<Rightarrow> Creation \<Rightarrow> Redis \<Rightarrow> Creation \<times> Redis" where
  "createStep cfg (Started sessionId now options) r =
     (Counted (newSession cfg sessionId now options) (getActiveSessionCount r), r)"
| "createStep cfg (Counted session sessionCount) r =
     (if int sessionCount \<ge> maxSessions cfg
      then (Finished (Inl (AppError ''Maximum session limit reached'' 503
                             (Some ''MAX_SESSIONS_EXCEEDED''))), r)
      else (Written session,
            redis_setex r (sid session) ((expiresAt session - createdAt session) div 1000) session))"
| "createStep cfg (Written session) r =
     (Finished (Inr session), redis_sadd r (username session) (sid session))"
| "createStep cfg (Finished result) r = (Finished result, r)"

text \<open>
  Creations in flight on one store: \<open>schedule\<close> names, step by step, the creation that
  makes its next request (a position in the list; a position outside the list is skipped).
\<close>

fun interleave ::
  "SessionConfig \<Rightarrow> nat list \<Rightarrow> Creation list \<Rightarrow> Redis \<Rightarrow> Creation list \<times> Redis"
where
  "interleave cfg [] creations r = (creations, r)"
| "interleave cfg (i # schedule) creations r =
     (if i < length creations
      then (case createStep cfg (creations ! i) r of
              (c, r') \<Rightarrow> interleave cfg schedule (creations[i := c]) r')
      else interleave cfg schedule creations r)"

text \<open>
  The sessions the specification calls live at the clock reading \<open>now\<close>: the stored
  records whose deadline has not passed.
\<close>

definition liveSessionCount :: "int \<Rightarrow> Redis \<Rightarrow> nat" where
  "liveSessionCount now r =
     length (filter (\<lambda>entry. \<not> expiresAt (snd (snd entry)) < now) (strings r))"

section \<open>N8nService\<close>

datatype N8nWebhookEndpoint =
  LOGIN | LOGIN_STATUS | ADD_ITEMS | SET_ADDRESS | CHECKOUT | ORDER_STATUS | CANCEL_ORDER

fun endpointName :: "N8nWebhookEndpoint \<Rightarrow> string" where
  "endpointName LOGIN = ''ubereats-login''"
| "endpointName LOGIN_STATUS = ''ubereats-login-status''"
| "endpointName ADD_ITEMS = ''ubereats-add-items''"
| "endpointName SET_ADDRESS = ''ubereats-set-address''"
| "endpointName CHECKOUT = ''ubereats-checkout''"
| "endpointName ORDER_STATUS = ''ubereats-order-status''"
| "endpointName CANCEL_ORDER = ''ubereats-cancel-order''"

datatype N8nStatus = St_success | St_error | St_manual_login_started | St_login_incomplete

record N8nWebhookResponse =
  r_status :: N8nStatus
  r_message :: "string option"
  r_cookies :: "Dict option"
  r_tokens :: "Dict option"
  r_sessionStorage :: "Dict option"
  r_localStorage :: "Dict option"
  r_storageState :: "string option"
  r_cartTotal :: "string option"
  r_orderConfirmationNumber :: "string option"
  r_estimatedDeliveryTime :: "string option"
  r_instructions :: "string list option"

text \<open>
  The payload of a request: the session identifier and, for the operations that carry it,
  the session's browser state (cookies, tokens, session storage, local storage). The fields
  that belong to one endpoint only are passed through and are not modelled.
\<close>

record N8nWebhookPayload =
  p_sessionId :: string
  p_sessionData :: "(Dict \<times> Dict \<times> Dict \<times> Dict) option"

record CircuitBreakerState =
  isOpen :: bool
  failures :: nat
  lastFailureTime :: "int option"
  nextRetryTime :: "int option"

record N8nTimeouts =
  t_default :: int
  t_manualLogin :: int
  t_loginStatus :: int

text \<open>
  The state of the service: the breaker of each endpoint, and the requests handed to the
  HTTP client so far (endpoint, payload, timeout), oldest first. The second field is how the
  model observes a network attempt.
\<close>

record N8nService =
  circuitBreakers :: "N8nWebhookEndpoint \<rightharpoonup> CircuitBreakerState"
  requests :: "(N8nWebhookEndpoint \<times> N8nWebhookPayload \<times> int) list"

text \<open>
  \<open>circuitBreakerConfig\<close> of the environment module: the values of
  \<open>CIRCUIT_BREAKER_THRESHOLD\<close>, \<open>CIRCUIT_BREAKER_TIMEOUT_MS\<close> and
  \<open>CIRCUIT_BREAKER_RESET_TIMEOUT_MS\<close>. The service does not import it: its threshold and
  its cooldown are the two constants that follow, and none of its functions takes the
  configuration.
\<close>

record CircuitBreakerConfig =
  threshold :: nat
  cb_timeout :: int
  cb_resetTimeout :: int

definition maxFailures :: nat where
  "maxFailures = 5"

definition resetTimeout :: int where
  "resetTimeout = 60000"

text \<open>The constructor: a closed breaker with no failure for each endpoint.\<close>

definition N8nService_new :: N8nService where
  "N8nService_new =
     \<lparr> circuitBreakers = (\<lambda>endpoint.
          Some \<lparr> isOpen = False, failures = 0, lastFailureTime = None, nextRetryTime = None \<rparr>),
       requests = [] \<rparr>"

text \<open>What the HTTP client does with a request: it resolves with the response body, or
  rejects with its own error, or with some other error.\<close>

datatype AxiosReply =
    Resolved N8nWebhookResponse
  | RejectedAxios AxiosError
  | RejectedOther string

definition isCircuitOpen :: "int \<Rightarrow> N8nService \<Rightarrow> N8nWebhookEndpoint \<Rightarrow> bool \<times> N8nService" where
  "isCircuitOpen now svc endpoint =
    (case circuitBreakers svc endpoint of
       None \<Rightarrow> (False, svc)
     | Some state \<Rightarrow>
         if \<not> isOpen state then (False, svc)
         else (case nextRetryTime state of
                 None \<Rightarrow> (True, svc)
               | Some retry \<Rightarrow>
                   if now \<ge> retry
                   then (False, svc\<lparr>circuitBreakers := (circuitBreakers svc)(endpoint \<mapsto>
                           state\<lparr>isOpen := False, failures := 0,
                                 lastFailureTime := None, nextRetryTime := None\<rparr>)\<rparr>)
                   else (True, svc)))"

definition recordFailure :: "int \<Rightarrow> N8nService \<Rightarrow> N8nWebhookEndpoint \<Rightarrow> N8nService" where
  "recordFailure now svc endpoint =
    (case circuitBreakers svc endpoint of
       None \<Rightarrow> svc
     | Some state \<Rightarrow>
         let s1 = state\<lparr>failures := failures state + 1, lastFailureTime := Some now\<rparr>;
             s2 = (if failures s1 \<ge> maxFailures
                   then s1\<lparr>isOpen := True, nextRetryTime := Some (now + resetTimeout)\<rparr>
                   else s1)
         in svc\<lparr>circuitBreakers := (circuitBreakers svc)(endpoint \<mapsto> s2)\<rparr>)"

definition recordSuccess :: "N8nService \<Rightarrow> N8nWebhookEndpoint \<Rightarrow> N8nService" where
  "recordSuccess svc endpoint =
    (case circuitBreakers svc endpoint of
       None \<Rightarrow> svc
     | Some state \<Rightarrow>
         if failures state > 0
         then svc\<lparr>circuitBreakers := (circuitBreakers svc)(endpoint \<mapsto>
                state\<lparr>failures := 0, lastFailureTime := None\<rparr>)\<rparr>
         else svc)"

text \<open>\<open>timeout || n8nConfig.timeouts.default\<close>: a timeout that is absent or \<open>0\<close> falls back
  to the default.\<close>

definition effectiveTimeout :: "N8nTimeouts \<Rightarrow> int option \<Rightarrow> int" where
  "effectiveTimeout tcfg timeout =
     (case timeout of None \<Rightarrow> t_default tcfg | Some ms \<Rightarrow> if ms = 0 then t_default tcfg else ms)"

text \<open>
  \<open>callWebhook\<close>: \<open>now\<close> is the clock when the call starts, \<open>reply\<close> what the HTTP client
  does with the request if it is handed one, and \<open>later\<close> the clock when the client has
  settled.
\<close>

definition callWebhook ::
  "N8nTimeouts \<Rightarrow> int \<Rightarrow> AxiosReply \<Rightarrow> int \<Rightarrow> N8nService \<Rightarrow> N8nWebhookEndpoint \<Rightarrow>
     N8nWebhookPayload \<Rightarrow> int option \<Rightarrow> (Thrown + N8nWebhookResponse) \<times> N8nService"
where
  "callWebhook tcfg now reply later svc endpoint payload timeout =
    (case isCircuitOpen now svc endpoint of
       (True, svc1) \<Rightarrow> (Inl (CircuitBreakerError (''n8n '' @ endpointName endpoint)), svc1)
     | (False, svc1) \<Rightarrow>
         let svc2 = svc1\<lparr>requests := requests svc1
                          @ [(endpoint, payload, effectiveTimeout tcfg timeout)]\<rparr>
         in (case reply of
               Resolved data \<Rightarrow> (Inr data, recordSuccess svc2 endpoint)
             | RejectedAxios error \<Rightarrow>
                 let svc3 = recordFailure later svc2 endpoint
                 in if ax_code error = Some ''ECONNABORTED'' \<or> ax_code error = Some ''ETIMEDOUT''
                    then (Inl (ExternalServiceError ''n8n timeout'' (AxiosDetails error)), svc3)
                    else (case ax_response error of
                            Some (st, body) \<Rightarrow>
                              (Inl (ExternalServiceError (''n8n '' @ endpointName endpoint)
                                     (StatusData st body)), svc3)
                          | None \<Rightarrow>
                              (Inl (ExternalServiceError ''n8n connection failed''
                                     (AxiosDetails error)), svc3))
             | RejectedOther msg \<Rightarrow> (Inl (OtherError msg), recordFailure later svc2 endpoint)))"

text \<open>
  The values \<open>error.details?.status\<close> can take, and the property read itself: the numeric
  status of the client's error, the \<open>status\<close> of a \<open>{status, data}\<close> object, or
  \<open>undefined\<close>. \<open>===\<close> is equality of these values.
\<close>

datatype JsValue = JsUndefined | JsNumber int | JsString string

fun detailsStatus :: "Thrown \<Rightarrow> JsValue" where
  "detailsStatus (ExternalServiceError service (AxiosDetails e)) =
     (case ax_status e of None \<Rightarrow> JsUndefined | Some n \<Rightarrow> JsNumber n)"
| "detailsStatus (ExternalServiceError service (StatusData st body)) = JsNumber st"
| "detailsStatus _ = JsUndefined"

fun isExternalServiceError :: "Thrown \<Rightarrow> bool" where
  "isExternalServiceError (ExternalServiceError _ _) = True"
| "isExternalServiceError _ = False"

definition manualLoginStarted :: N8nWebhookResponse where
  "manualLoginStarted =
     \<lparr> r_status = St_manual_login_started,
       r_message = Some ''Manual login process started. Complete login in browser.'',
       r_cookies = None, r_tokens = None, r_sessionStorage = None, r_localStorage = None,
       r_storageState = None, r_cartTotal = None, r_orderConfirmationNumber = None,
       r_estimatedDeliveryTime = None,
       r_instructions = Some [''A browser window should have opened'',
                              ''Complete the login process manually'',
                              ''Handle any CAPTCHA or MFA challenges'',
                              ''Click '' @ [CHR 0x22] @ ''Complete Manual Login''
                                @ [CHR 0x22] @ '' when done''] \<rparr>"

definition login ::
  "N8nTimeouts \<Rightarrow> int \<Rightarrow> AxiosReply \<Rightarrow> int \<Rightarrow> N8nService \<Rightarrow> string \<Rightarrow> bool \<Rightarrow>
     (Thrown + N8nWebhookResponse) \<times> N8nService"
where
  "login tcfg now reply later svc sessionId manualMode =
    (let payload = \<lparr> p_sessionId = sessionId, p_sessionData = None \<rparr>;
         timeout = (if manualMode then t_manualLogin tcfg else t_default tcfg)
     in case callWebhook tcfg now reply later svc LOGIN payload (Some timeout) of
          (Inr response, svc') \<Rightarrow> (Inr response, svc')
        | (Inl error, svc') \<Rightarrow>
            if manualMode \<and> isExternalServiceError error
               \<and> detailsStatus error = JsString ''ECONNABORTED''
            then (Inr manualLoginStarted, svc')
            else (Inl error, svc'))"

definition checkLoginStatus ::
  "N8nTimeouts \<Rightarrow> int \<Rightarrow> AxiosReply \<Rightarrow> int \<Rightarrow> N8nService \<Rightarrow> string \<Rightarrow>
     (Thrown + N8nWebhookResponse) \<times> N8nService"
where
  "checkLoginStatus tcfg now reply later svc sessionId =
     callWebhook tcfg now reply later svc LOGIN_STATUS
       \<lparr> p_sessionId = sessionId, p_sessionData = None \<rparr> (Some (t_loginStatus tcfg))"

definition addItems ::
  "N8nTimeouts \<Rightarrow> int \<Rightarrow> AxiosReply \<Rightarrow> int \<Rightarrow> N8nService \<Rightarrow> string \<Rightarrow>
     (Dict \<times> Dict \<times> Dict \<times> Dict) \<Rightarrow> (Thrown + N8nWebhookResponse) \<times> N8nService"
where
  "addItems tcfg now reply later svc sessionId sessionData =
     callWebhook tcfg now reply later svc ADD_ITEMS
       \<lparr> p_sessionId = sessionId, p_sessionData = Some sessionData \<rparr> None"

definition setDeliveryAddress ::
  "N8nTimeouts \<Rightarrow> int \<Rightarrow> AxiosReply \<Rightarrow> int \<Rightarrow> N8nService \<Rightarrow> string \<Rightarrow>
     (Dict \<times> Dict \<times> Dict \<times> Dict) \<Rightarrow> (Thrown + N8nWebhookResponse) \<times> N8nService"
where
  "setDeliveryAddress tcfg now reply later svc sessionId sessionData =
     callWebhook tcfg now reply later svc SET_ADDRESS
       \<lparr> p_sessionId = sessionId, p_sessionData = Some sessionData \<rparr> None"

definition checkout ::
  "N8nTimeouts \<Rightarrow> int \<Rightarrow> AxiosReply \<Rightarrow> int \<Rightarrow> N8nService \<Rightarrow> string \<Rightarrow>
     (Dict \<times> Dict \<times> Dict \<times> Dict) \<Rightarrow> (Thrown + N8nWebhookResponse) \<times> N8nService"
where
  "checkout tcfg now reply later svc sessionId sessionData =
     callWebhook tcfg now reply later svc CHECKOUT
       \<lparr> p_sessionId = sessionId, p_sessionData = Some sessionData \<rparr> None"

text \<open>
  A run of calls to one endpoint, one after the other: each element is the clock at the
  start of the call, what the HTTP client does with the request, and the clock when the
  client has settled. \<open>isResolved\<close> tells a success of the client from a failure.
\<close>

fun isResolved :: "AxiosReply \<Rightarrow> bool" where
  "isResolved (Resolved data) = True"
| "isResolved _ = False"

fun consecutiveCalls ::
  "N8nTimeouts \<Rightarrow> N8nService \<Rightarrow> N8nWebhookEndpoint \<Rightarrow> N8nWebhookPayload \<Rightarrow>
     (int \<times> AxiosReply \<times> int) list \<Rightarrow> N8nService"
where
  "consecutiveCalls tcfg svc endpoint payload [] = svc"
| "consecutiveCalls tcfg svc endpoint payload ((now, reply, later) # rest) =
     consecutiveCalls tcfg
       (snd (callWebhook tcfg now reply later svc endpoint payload None))
       endpoint payload rest"

section \<open>Operation handlers\<close>

text \<open>
  The outcome object a handler returns; the fields that only echo the caller's input
  (\<open>data\<close>) are left out.
\<close>

record ToolResult =
  o_status :: string
  o_message :: string
  o_code :: "string option"
  o_sessionId :: "string option"
  o_token :: "(string \<times> string) option"
  o_expiresAt :: "int option"
  o_instructions :: "string list option"
  o_cartTotal :: "string option"
  o_orderConfirmationNumber :: "string option"
  o_estimatedDeliveryTime :: "string option"

definition outcome :: "string \<Rightarrow> string \<Rightarrow> ToolResult" where
  "outcome st msg =
     \<lparr> o_status = st, o_message = msg, o_code = None, o_sessionId = None, o_token = None,
       o_expiresAt = None, o_instructions = None, o_cartTotal = None,
       o_orderConfirmationNumber = None, o_estimatedDeliveryTime = None \<rparr>"

text \<open>\<open>message || fallback\<close>: an absent or empty message is falsy.\<close>

definition orElse :: "string option \<Rightarrow> string \<Rightarrow> string" where
  "orElse m fallback = (case m of None \<Rightarrow> fallback | Some t \<Rightarrow> if t = [] then fallback else t)"

fun handleError :: "bool \<Rightarrow> Thrown \<Rightarrow> ToolResult" where
  "handleError production (AppError msg statusCode code) = (outcome ''error'' msg)\<lparr>o_code := code\<rparr>"
| "handleError production (AuthenticationError msg) =
     (outcome ''error'' msg)\<lparr>o_code := Some ''AUTHENTICATION_ERROR''\<rparr>"
| "handleError production (NotFoundError resource) =
     (outcome ''error'' (resource @ '' not found''))\<lparr>o_code := Some ''NOT_FOUND''\<rparr>"
| "handleError production (ExternalServiceError service d) =
     (outcome ''error'' (''External service error: '' @ service))
       \<lparr>o_code := Some ''EXTERNAL_SERVICE_ERROR''\<rparr>"
| "handleError production (CircuitBreakerError service) =
     (outcome ''error'' (''Service temporarily unavailable: '' @ service))
       \<lparr>o_code := Some ''CIRCUIT_BREAKER_OPEN''\<rparr>"
| "handleError production ZodError =
     (outcome ''error'' ''Validation failed'')\<lparr>o_code := Some ''VALIDATION_ERROR''\<rparr>"
| "handleError production (OtherError msg) =
     (outcome ''error'' (if production then ''An unexpected error occurred'' else msg))
       \<lparr>o_code := Some ''INTERNAL_ERROR''\<rparr>"

text \<open>
  The two singleton services a handler works on, and what the environment contributes to
  one invocation: the identifier the next \<open>uuidv4()\<close> returns, the clock before the call to
  the external engine, what the HTTP client does with a request, the clock once that call
  has settled, and whether the process runs in production.
\<close>

record World =
  store :: Redis
  n8n :: N8nService

record Env =
  e_uuid :: string
  e_now :: int
  e_reply :: AxiosReply
  e_later :: int
  e_production :: bool

record LoginInput =
  i_username :: string
  i_password :: string
  i_manualMode :: bool
  i_metadata :: "Metadata option"

definition authUpdate :: "N8nWebhookResponse \<Rightarrow> int \<Rightarrow> SessionUpdateOptions" where
  "authUpdate n8nResponse now =
     \<lparr> u_status = Some ACTIVE,
       u_cookies = Some (case r_cookies n8nResponse of None \<Rightarrow> Map.empty | Some c \<Rightarrow> c),
       u_tokens = Some (case r_tokens n8nResponse of None \<Rightarrow> Map.empty | Some c \<Rightarrow> c),
       u_sessionStorage = Some (case r_sessionStorage n8nResponse of None \<Rightarrow> Map.empty | Some c \<Rightarrow> c),
       u_localStorage = Some (case r_localStorage n8nResponse of None \<Rightarrow> Map.empty | Some c \<Rightarrow> c),
       u_storageState = r_storageState n8nResponse,
       u_loginCompletedAt = Some now \<rparr>"

text \<open>The inner \<open>catch\<close> of \<open>loginHandler\<close>: delete the session, then rethrow to the outer
  \<open>catch\<close>, which shapes the error; an error of the deletion itself takes its place.\<close>

definition loginCleanup ::
  "bool \<Rightarrow> nat \<Rightarrow> int \<Rightarrow> Redis \<Rightarrow> N8nService \<Rightarrow> string \<Rightarrow> Thrown \<Rightarrow> (ToolResult \<times> World) option"
where
  "loginCleanup production fuel now r svc sessionId error =
    (case deleteSession fuel now r sessionId of
       None \<Rightarrow> None
     | Some (Inl e2, r') \<Rightarrow> Some (handleError production e2, \<lparr> store = r', n8n = svc \<rparr>)
     | Some (Inr u, r') \<Rightarrow> Some (handleError production error, \<lparr> store = r', n8n = svc \<rparr>))"

text \<open>\<open>args\<close> is the result of parsing the caller's arguments against the input schema.\<close>

definition loginHandler ::
  "SessionConfig \<Rightarrow> N8nTimeouts \<Rightarrow> nat \<Rightarrow> Env \<Rightarrow> World \<Rightarrow> unit + LoginInput \<Rightarrow>
     (ToolResult \<times> World) option"
where
  "loginHandler cfg tcfg fuel env w args =
    (case args of
       Inl u \<Rightarrow> Some (handleError (e_production env) ZodError, w)
     | Inr input \<Rightarrow>
        (case createSession cfg (e_uuid env) (e_now env) (store w)
                \<lparr> c_username = i_username input,
                  c_status = Some (if i_manualMode input then MANUAL_LOGIN_PENDING else ACTIVE),
                  c_lifetimeMinutes = None,
                  c_metadata = i_metadata input \<rparr> of
           (Inl e, r1) \<Rightarrow> Some (handleError (e_production env) e, w\<lparr>store := r1\<rparr>)
         | (Inr session, r1) \<Rightarrow>
            (case login tcfg (e_now env) (e_reply env) (e_later env) (n8n w)
                    (sid session) (i_manualMode input) of
               (Inl error, svc1) \<Rightarrow>
                 loginCleanup (e_production env) fuel (e_later env) r1 svc1 (sid session) error
             | (Inr n8nResponse, svc1) \<Rightarrow>
                 if r_status n8nResponse = St_success then
                   (case updateSession fuel (e_later env) (e_later env) r1 (sid session)
                           (authUpdate n8nResponse (e_later env)) of
                      None \<Rightarrow> None
                    | Some (Inl error, r2) \<Rightarrow>
                        loginCleanup (e_production env) fuel (e_later env) r2 svc1 (sid session) error
                    | Some (Inr s', r2) \<Rightarrow>
                        Some ((outcome ''success'' ''Successfully logged in'')
                                \<lparr>o_sessionId := Some (sid session),
                                 o_token := Some (generateToken (sid session) (i_username input)),
                                 o_expiresAt := Some (expiresAt session)\<rparr>,
                              \<lparr> store = r2, n8n = svc1 \<rparr>))
                 else if r_status n8nResponse = St_manual_login_started then
                   Some ((outcome ''manual_login_started''
                            (orElse (r_message n8nResponse)
                               ''Manual login started. Complete login in browser.''))
                           \<lparr>o_sessionId := Some (sid session),
                            o_instructions := Some (case r_instructions n8nResponse of
                               Some l \<Rightarrow> l
                             | None \<Rightarrow> [''A browser window should have opened'',
                                         ''Complete the login process manually'',
                                         ''Handle any CAPTCHA or MFA challenges'',
                                         ''Use the completeLogin tool when done''])\<rparr>,
                         \<lparr> store = r1, n8n = svc1 \<rparr>)
                 else
                   (case deleteSession fuel (e_later env) r1 (sid session) of
                      None \<Rightarrow> None
                    | Some (Inl error, r2) \<Rightarrow>
                        loginCleanup (e_production env) fuel (e_later env) r2 svc1 (sid session) error
                    | Some (Inr u, r2) \<Rightarrow>
                        Some ((outcome ''error'' (orElse (r_message n8nResponse) ''Login failed''))
                                \<lparr>o_code := Some ''LOGIN_FAILED''\<rparr>,
                              \<lparr> store = r2, n8n = svc1 \<rparr>)))))"

definition completeLoginHandler ::
  "N8nTimeouts \<Rightarrow> nat \<Rightarrow> Env \<Rightarrow> World \<Rightarrow> unit + string \<Rightarrow> (ToolResult \<times> World) option"
where
  "completeLoginHandler tcfg fuel env w args =
    (case args of
       Inl u \<Rightarrow> Some (handleError (e_production env) ZodError, w)
     | Inr sessionId \<Rightarrow>
        (case getSession fuel (e_now env) (store w) sessionId of
           None \<Rightarrow> None
         | Some (Inl e, r1) \<Rightarrow> Some (handleError (e_production env) e, w\<lparr>store := r1\<rparr>)
         | Some (Inr session, r1) \<Rightarrow>
            if status session = ACTIVE \<and> loginCompletedAt session \<noteq> None then
              Some ((outcome ''success'' ''Session already logged in'')
                      \<lparr>o_sessionId := Some (sid session),
                       o_token := Some (generateToken (sid session) (username session)),
                       o_expiresAt := Some (expiresAt session)\<rparr>,
                    w\<lparr>store := r1\<rparr>)
            else if status session \<noteq> MANUAL_LOGIN_PENDING \<and> status session \<noteq> ACTIVE then
              Some ((outcome ''error'' ''Session is not in a valid state for login completion'')
                      \<lparr>o_code := Some ''INVALID_STATE''\<rparr>,
                    w\<lparr>store := r1\<rparr>)
            else
              (case checkLoginStatus tcfg (e_now env) (e_reply env) (e_later env) (n8n w)
                      (sid session) of
                 (Inl error, svc1) \<Rightarrow>
                   Some (handleError (e_production env) error, \<lparr> store = r1, n8n = svc1 \<rparr>)
               | (Inr n8nResponse, svc1) \<Rightarrow>
                   if r_status n8nResponse = St_success then
                     (case updateSession fuel (e_later env) (e_later env) r1 (sid session)
                             (authUpdate n8nResponse (e_later env)) of
                        None \<Rightarrow> None
                      | Some (Inl error, r2) \<Rightarrow>
                          Some (handleError (e_production env) error, \<lparr> store = r2, n8n = svc1 \<rparr>)
                      | Some (Inr s', r2) \<Rightarrow>
                          Some ((outcome ''success'' ''Login completed successfully'')
                                  \<lparr>o_sessionId := Some (sid session),
                                   o_token := Some (generateToken (sid session) (username session)),
                                   o_expiresAt := Some (expiresAt session)\<rparr>,
                                \<lparr> store = r2, n8n = svc1 \<rparr>))
                   else if r_status n8nResponse = St_login_incomplete then
                     Some ((outcome ''login_incomplete''
                              (orElse (r_message n8nResponse)
                                 ''Login not yet completed. Please finish the login process in the browser.''))
                             \<lparr>o_sessionId := Some (sid session)\<rparr>,
                           \<lparr> store = r1, n8n = svc1 \<rparr>)
                   else
                     Some ((outcome ''error''
                              (orElse (r_message n8nResponse) ''Failed to complete login''))
                             \<lparr>o_code := Some ''LOGIN_COMPLETION_FAILED''\<rparr>,
                           \<lparr> store = r1, n8n = svc1 \<rparr>))))"

text \<open>
  The three handlers of the ordering flow. Each reads the session, requires it to be
  \<open>ACTIVE\<close>, hands the session's browser state to the external engine and shapes the
  answer. \<open>args\<close> is again the result of parsing; of the parsed input only the session
  identifier is modelled.
\<close>

definition carried :: "SessionData \<Rightarrow> Dict \<times> Dict \<times> Dict \<times> Dict" where
  "carried session = (cookies session, tokens session, sessionStorage session, localStorage session)"

definition notActive :: Thrown where
  "notActive = AuthenticationError ''Session is not active. Please complete login first.''"

definition addItemsHandler ::
  "N8nTimeouts \<Rightarrow> nat \<Rightarrow> Env \<Rightarrow> World \<Rightarrow> unit + string \<Rightarrow> (ToolResult \<times> World) option"
where
  "addItemsHandler tcfg fuel env w args =
    (case args of
       Inl u \<Rightarrow> Some (handleError (e_production env) ZodError, w)
     | Inr sessionId \<Rightarrow>
        (case getSession fuel (e_now env) (store w) sessionId of
           None \<Rightarrow> None
         | Some (Inl e, r1) \<Rightarrow> Some (handleError (e_production env) e, w\<lparr>store := r1\<rparr>)
         | Some (Inr session, r1) \<Rightarrow>
            if status session \<noteq> ACTIVE
            then Some (handleError (e_production env) notActive, w\<lparr>store := r1\<rparr>)
            else
              (case addItems tcfg (e_now env) (e_reply env) (e_later env) (n8n w)
                      (sid session) (carried session) of
                 (Inl error, svc1) \<Rightarrow>
                   Some (handleError (e_production env) error, \<lparr> store = r1, n8n = svc1 \<rparr>)
               | (Inr n8nResponse, svc1) \<Rightarrow>
                   if r_status n8nResponse = St_success then
                     Some ((outcome ''success'' ''Items added to cart successfully'')
                             \<lparr>o_cartTotal := r_cartTotal n8nResponse\<rparr>,
                           \<lparr> store = r1, n8n = svc1 \<rparr>)
                   else
                     Some ((outcome ''error''
                              (orElse (r_message n8nResponse) ''Failed to add items to cart''))
                             \<lparr>o_code := Some ''ADD_ITEMS_FAILED''\<rparr>,
                           \<lparr> store = r1, n8n = svc1 \<rparr>))))"

definition setAddressHandler ::
  "N8nTimeouts \<Rightarrow> nat \<Rightarrow> Env \<Rightarrow> World \<Rightarrow> unit + string \<Rightarrow> (ToolResult \<times> World) option"
where
  "setAddressHandler tcfg fuel env w args =
    (case args of
       Inl u \<Rightarrow> Some (handleError (e_production env) ZodError, w)
     | Inr sessionId \<Rightarrow>
        (case getSession fuel (e_now env) (store w) sessionId of
           None \<Rightarrow> None
         | Some (Inl e, r1) \<Rightarrow> Some (handleError (e_production env) e, w\<lparr>store := r1\<rparr>)
         | Some (Inr session, r1) \<Rightarrow>
            if status session \<noteq> ACTIVE
            then Some (handleError (e_production env) notActive, w\<lparr>store := r1\<rparr>)
            else
              (case setDeliveryAddress tcfg (e_now env) (e_reply env) (e_later env) (n8n w)
                      (sid session) (carried session) of
                 (Inl error, svc1) \<Rightarrow>
                   Some (handleError (e_production env) error, \<lparr> store = r1, n8n = svc1 \<rparr>)
               | (Inr n8nResponse, svc1) \<Rightarrow>
                   if r_status n8nResponse = St_success then
                     Some (outcome ''success'' ''Delivery address set successfully'',
                           \<lparr> store = r1, n8n = svc1 \<rparr>)
                   else
                     Some ((outcome ''error''
                              (orElse (r_message n8nResponse) ''Failed to set delivery address''))
                             \<lparr>o_code := Some ''SET_ADDRESS_FAILED''\<rparr>,
                           \<lparr> store = r1, n8n = svc1 \<rparr>))))"

definition checkoutHandler ::
  "N8nTimeouts \<Rightarrow> nat \<Rightarrow> Env \<Rightarrow> World \<Rightarrow> unit + string \<Rightarrow> (ToolResult \<times> World) option"
where
  "checkoutHandler tcfg fuel env w args =
    (case args of
       Inl u \<Rightarrow> Some (handleError (e_production env) ZodError, w)
     | Inr sessionId \<Rightarrow>
        (case getSession fuel (e_now env) (store w) sessionId of
           None \<Rightarrow> None
         | Some (Inl e, r1) \<Rightarrow> Some (handleError (e_production env) e, w\<lparr>store := r1\<rparr>)
         | Some (Inr session, r1) \<Rightarrow>
            if status session \<noteq> ACTIVE
            then Some (handleError (e_production env) notActive, w\<lparr>store := r1\<rparr>)
            else
              (case checkout tcfg (e_now env) (e_reply env) (e_later env) (n8n w)
                      (sid session) (carried session) of
                 (Inl error, svc1) \<Rightarrow>
                   Some (handleError (e_production env) error, \<lparr> store = r1, n8n = svc1 \<rparr>)
               | (Inr n8nResponse, svc1) \<Rightarrow>
                   if r_status n8nResponse = St_success then
                     Some ((outcome ''success'' ''Order placed successfully'')
                             \<lparr>o_orderConfirmationNumber := r_orderConfirmationNumber n8nResponse,
                              o_estimatedDeliveryTime := r_estimatedDeliveryTime n8nResponse\<rparr>,
                           \<lparr> store = r1, n8n = svc1 \<rparr>)
                   else
                     Some ((outcome ''error'' (orElse (r_message n8nResponse) ''Checkout failed''))
                             \<lparr>o_code := Some ''CHECKOUT_FAILED''\<rparr>,
                           \<lparr> store = r1, n8n = svc1 \<rparr>))))"

section \<open>Example states\<close>

text \<open>
  A session of \<open>user@example.com\<close> with one cookie and the deadline \<open>60000\<close>, the store
  that holds it, and the store with nothing in it.
\<close>

definition session1 :: SessionData where
  "session1 =
     \<lparr> sid = ''s1'', username = ''user@example.com'', status = ACTIVE,
       createdAt = 0, updatedAt = 0, expiresAt = 60000, loginCompletedAt = None,
       cookies = [''b'' \<mapsto> ''2''], tokens = Map.empty,
       sessionStorage = Map.empty, localStorage = Map.empty,
       storageState = None, metadata = None \<rparr>"

definition store1 :: Redis where
  "store1 = \<lparr> strings = [(''s1'', (60, session1))],
              sets = (\<lambda>u. [])(''user@example.com'' := [''s1'']) \<rparr>"

definition store0 :: Redis where
  "store0 = \<lparr> strings = [], sets = (\<lambda>u. []) \<rparr>"

text \<open>An update that supplies one cookie and nothing else.\<close>

definition update1 :: SessionUpdateOptions where
  "update1 = \<lparr> u_status = None, u_cookies = Some [''a'' \<mapsto> ''1''], u_tokens = None,
               u_sessionStorage = None, u_localStorage = None, u_storageState = None,
               u_loginCompletedAt = None \<rparr>"

text \<open>A configuration with a ceiling of one session, and the options of a plain login.\<close>

definition config1 :: SessionConfig where
  "config1 = \<lparr> lifetimeMinutes = 60, maxSessions = 1 \<rparr>"

definition options1 :: SessionCreateOptions where
  "options1 = \<lparr> c_username = ''user@example.com'', c_status = None,
                c_lifetimeMinutes = None, c_metadata = None \<rparr>"

text \<open>
  For the call gateway: the default timeouts, the error of the HTTP client on a timeout, a
  closed breaker, a successful answer of the engine, a payload, and five calls in a row that
  fail, the last of which settles at \<open>10000\<close>.
\<close>

definition timeouts1 :: N8nTimeouts where
  "timeouts1 = \<lparr> t_default = 60000, t_manualLogin = 10000, t_loginStatus = 30000 \<rparr>"

definition timeoutError :: AxiosError where
  "timeoutError = \<lparr> ax_code = Some ''ECONNABORTED'', ax_status = None, ax_response = None \<rparr>"

definition closedBreaker :: CircuitBreakerState where
  "closedBreaker = \<lparr> isOpen = False, failures = 0, lastFailureTime = None, nextRetryTime = None \<rparr>"

definition cookies1 :: Dict where
  "cookies1 = [''a'' \<mapsto> ''1'']"

definition okResponse :: N8nWebhookResponse where
  "okResponse =
     \<lparr> r_status = St_success, r_message = None,
       r_cookies = Some cookies1, r_tokens = None, r_sessionStorage = None,
       r_localStorage = None, r_storageState = None, r_cartTotal = Some ''12.50'',
       r_orderConfirmationNumber = None, r_estimatedDeliveryTime = None,
       r_instructions = None \<rparr>"

definition payload1 :: N8nWebhookPayload where
  "payload1 = \<lparr> p_sessionId = ''s1'', p_sessionData = None \<rparr>"

definition calls5 :: "(int \<times> AxiosReply \<times> int) list" where
  "calls5 = [(0, RejectedAxios timeoutError, 1000), (2000, RejectedOther ''boom'', 3000),
            (4000, RejectedAxios timeoutError, 5000), (6000, RejectedAxios timeoutError, 7000),
            (8000, RejectedAxios timeoutError, 10000)]"

text \<open>
  For the handlers: the two services with \<open>store1\<close> and a new gateway, an invocation during
  which the engine answers with success, and the gateway after one request for \<open>s1\<close>.
\<close>

definition world1 :: World where
  "world1 = \<lparr> store = store1, n8n = N8nService_new \<rparr>"

definition env1 :: Env where
  "env1 = \<lparr> e_uuid = ''s2'', e_now = 0, e_reply = Resolved okResponse, e_later = 500,
             e_production = False \<rparr>"

definition requested :: "N8nWebhookEndpoint \<Rightarrow> N8nService" where
  "requested endpoint =
     N8nService_new\<lparr>requests :=
       [(endpoint, \<lparr> p_sessionId = ''s1'', p_sessionData = Some (carried session1) \<rparr>, 60000)]\<rparr>"

text \<open>
  For login and its confirmation: a session that waits for a manual login, the store and
  services that hold it, an answer of the engine with status \<open>error\<close>, an invocation during
  which the engine gives that answer and one during which the HTTP client times out, the
  services with an empty store, a login input in manual mode, and the gateway after one
  poll of the login status for \<open>s2\<close>.
\<close>

definition session2 :: SessionData where
  "session2 =
     \<lparr> sid = ''s2'', username = ''user@example.com'', status = MANUAL_LOGIN_PENDING,
       createdAt = 0, updatedAt = 0, expiresAt = 3600000, loginCompletedAt = None,
       cookies = Map.empty, tokens = Map.empty,
       sessionStorage = Map.empty, localStorage = Map.empty,
       storageState = None, metadata = None \<rparr>"

definition store2 :: Redis where
  "store2 = \<lparr> strings = [(''s2'', (3600, session2))],
              sets = (\<lambda>u. [])(''user@example.com'' := [''s2'']) \<rparr>"

definition world2 :: World where
  "world2 = \<lparr> store = store2, n8n = N8nService_new \<rparr>"

definition errorResponse :: N8nWebhookResponse where
  "errorResponse =
     \<lparr> r_status = St_error, r_message = None,
       r_cookies = None, r_tokens = None, r_sessionStorage = None,
       r_localStorage = None, r_storageState = None, r_cartTotal = None,
       r_orderConfirmationNumber = None, r_estimatedDeliveryTime = None,
       r_instructions = None \<rparr>"

definition env2 :: Env where
  "env2 = \<lparr> e_uuid = ''s3'', e_now = 1000, e_reply = Resolved errorResponse, e_later = 2000,
             e_production = False \<rparr>"

definition env3 :: Env where
  "env3 = \<lparr> e_uuid = ''s3'', e_now = 0, e_reply = RejectedAxios timeoutError, e_later = 10000,
             e_production = False \<rparr>"

definition world0 :: World where
  "world0 = \<lparr> store = store0, n8n = N8nService_new \<rparr>"

definition input1 :: LoginInput where
  "input1 = \<lparr> i_username = ''user@example.com'', i_password = ''secret'', i_manualMode = True,
               i_metadata = None \<rparr>"

definition polled :: N8nService where
  "polled = N8nService_new\<lparr>requests :=
              [(LOGIN_STATUS, \<lparr> p_sessionId = ''s2'', p_sessionData = None \<rparr>, 30000)]\<rparr>"

text \<open>
  Two creations called at the same time, and the schedule that lets them take turns. A
  configured breaker threshold of three, and three calls in a row that fail.
\<close>

definition creations2 :: "Creation list" where
  "creations2 = [Started ''s1'' 0 options1, Started ''s2'' 0 options1]"

definition turns :: "nat list" where
  "turns = [0, Suc 0, 0, Suc 0, 0, Suc 0]"

definition breakerConfig3 :: CircuitBreakerConfig where
  "breakerConfig3 = \<lparr> threshold = 3, cb_timeout = 30000, cb_resetTimeout = 60000 \<rparr>"

definition calls3 :: "(int \<times> AxiosReply \<times> int) list" where
  "calls3 = [(0, RejectedAxios timeoutError, 1000), (2000, RejectedAxios timeoutError, 3000),
            (4000, RejectedAxios timeoutError, 5000)]"

section \<open>Reading a session\<close>

lemma getSession_absent:
  "redis_get r sessionId = None \<Longrightarrow>
     getSession (Suc fuel) now r sessionId = Some (Inl (NotFoundError ''Session''), r)"
  by simp

lemma getSession_live:
  "redis_get r sessionId = Some session \<Longrightarrow> \<not> expiresAt session < now \<Longrightarrow>
     getSession (Suc fuel) now r sessionId = Some (Inr session, r)"
  by simp

text \<open>
  A record that is stored and expired: every call of \<open>getSession\<close> reaches \<open>deleteSession\<close>,
  which reaches \<open>getSession\<close> on the same store, and no amount of fuel lets either return.
\<close>

lemma expired_never_returns:
  assumes "redis_get r sessionId = Some session" and "expiresAt session < now"
  shows "getSession fuel now r sessionId = None \<and> deleteSession fuel now r sessionId = None"
proof (induction fuel)
  case 0
  show ?case by simp
next
  case (Suc fuel)
  then show ?case using assms by simp
qed

text \<open>
  So a call of \<open>getSession\<close> that returns has found the record absent or live, and has left
  the store as it was.
\<close>

lemma getSession_returns:
  assumes "getSession fuel now r sessionId = Some (x, r')"
  shows "r' = r \<and>
         (case x of
            Inl e \<Rightarrow> e = NotFoundError ''Session'' \<and> redis_get r sessionId = None
          | Inr session \<Rightarrow> redis_get r sessionId = Some session \<and> \<not> expiresAt session < now)"
proof (cases fuel)
  case 0
  with assms show ?thesis by simp
next
  case (Suc n)
  show ?thesis
  proof (cases "redis_get r sessionId")
    case None
    with assms Suc show ?thesis by auto
  next
    case (Some session)
    show ?thesis
    proof (cases "expiresAt session < now")
      case True
      with Some have "deleteSession n now r sessionId = None"
        using expired_never_returns by blast
      with assms Suc Some True show ?thesis by simp
    next
      case False
      with assms Suc Some show ?thesis by auto
    qed
  qed
qed

section \<open>Deleting a session\<close>

lemma deleteSession_absent:
  "redis_get r sessionId = None \<Longrightarrow>
     deleteSession (Suc (Suc fuel)) now r sessionId = Some (Inr (), r)"
  by simp

lemma deleteSession_live:
  "redis_get r sessionId = Some session \<Longrightarrow> \<not> expiresAt session < now \<Longrightarrow>
     deleteSession (Suc (Suc fuel)) now r sessionId =
       Some (Inr (), redis_srem (redis_del r sessionId) (username session) sessionId)"
  by simp

lemma redis_get_del [simp]: "redis_get (redis_del r key) key = None"
  by (simp add: redis_get_def redis_del_def delete_conv')

lemma redis_get_srem [simp]: "redis_get (redis_srem r user member) key = redis_get r key"
  by (simp add: redis_get_def redis_srem_def)

lemma deleteSession_returns:
  assumes "deleteSession fuel now r sessionId = Some (x, r')"
  shows "x = Inr () \<and>
         (case redis_get r sessionId of
            None \<Rightarrow> r' = r
          | Some session \<Rightarrow> \<not> expiresAt session < now \<and>
              r' = redis_srem (redis_del r sessionId) (username session) sessionId)"
proof (cases fuel)
  case 0
  with assms show ?thesis by simp
next
  case (Suc n)
  with assms obtain y r1 where g: "getSession n now r sessionId = Some (y, r1)"
    by (auto split: option.splits)
  from getSession_returns [OF g] assms Suc g show ?thesis
    by (cases y) auto
qed



section \<open>Updating a session\<close>

lemma applyUpdates_status:
  "status (applyUpdates session updates now') =
     (case u_status updates of None \<Rightarrow> status session | Some st \<Rightarrow> st)"
  by (simp add: applyUpdates_def Let_def split: option.splits)

lemma applyUpdates_cookies:
  "cookies (applyUpdates session updates now') =
     (case u_cookies updates of None \<Rightarrow> cookies session | Some c \<Rightarrow> cookies session ++ c)"
  by (simp add: applyUpdates_def Let_def split: option.splits)

lemma applyUpdates_tokens:
  "tokens (applyUpdates session updates now') =
     (case u_tokens updates of None \<Rightarrow> tokens session | Some c \<Rightarrow> tokens session ++ c)"
  by (simp add: applyUpdates_def Let_def split: option.splits)

lemma applyUpdates_sessionStorage:
  "sessionStorage (applyUpdates session updates now') =
     (case u_sessionStorage updates of None \<Rightarrow> sessionStorage session
      | Some c \<Rightarrow> sessionStorage session ++ c)"
  by (simp add: applyUpdates_def Let_def split: option.splits)

lemma applyUpdates_localStorage:
  "localStorage (applyUpdates session updates now') =
     (case u_localStorage updates of None \<Rightarrow> localStorage session
      | Some c \<Rightarrow> localStorage session ++ c)"
  by (simp add: applyUpdates_def Let_def split: option.splits)

lemma applyUpdates_fixed:
  "expiresAt (applyUpdates session updates now') = expiresAt session"
  "updatedAt (applyUpdates session updates now') = now'"
  "sid (applyUpdates session updates now') = sid session"
  "username (applyUpdates session updates now') = username session"
  "createdAt (applyUpdates session updates now') = createdAt session"
  by (simp_all add: applyUpdates_def Let_def split: option.splits)

lemma updateSession_live:
  assumes "redis_get r sessionId = Some session" and "\<not> expiresAt session < now"
  shows "updateSession (Suc fuel) now now' r sessionId updates =
           Some (Inr (applyUpdates session updates now'),
                 if (expiresAt session - now') div 1000 > 0
                 then redis_setex r sessionId ((expiresAt session - now') div 1000)
                        (applyUpdates session updates now')
                 else r)"
  using assms by (simp add: updateSession_def Let_def applyUpdates_fixed)

section \<open>Claims on reading a session\<close>

text \<open>
  C1. \<open>get(id)\<close> on a record that is stored with a deadline in the past is meant to delete
  the record and fail with the expiry error. Evaluated on the store \<open>store1\<close>, whose session
  \<open>s1\<close> has the deadline \<open>60000\<close>, at the clock reading \<open>70000\<close>: whatever depth of calls is
  allowed, \<open>getSession\<close> does not return, so it neither deletes the record nor raises the
  expiry error.
\<close>

theorem getSession_expired_diverges:
  "getSession fuel 70000 store1 ''s1'' = None"
proof -
  have "redis_get store1 ''s1'' = Some session1"
    by (simp add: redis_get_def store1_def)
  moreover have "expiresAt session1 < 70000"
    by (simp add: session1_def)
  ultimately show ?thesis
    using expired_never_returns by blast
qed

section \<open>Claims on updating a session\<close>

text \<open>
  C2. For a stored session that \<open>getSession\<close> returns, \<open>updateSession\<close> returns a session
  whose status is the supplied one (the stored one when none is supplied) and whose cookies,
  tokens, session storage and local storage hold, key by key, the supplied value where the
  update has the key and the stored value where it has not. The deadline \<open>expiresAt\<close> is the
  stored one. When the remaining time-to-live, in whole seconds at the time of writing, is
  positive, the record is rewritten under its key with exactly that time-to-live and nothing
  else in the store changes; when it is zero or negative, the store is left as it was.
\<close>

theorem updateSession_merges:
  assumes "redis_get r sessionId = Some session" and "\<not> expiresAt session < now"
  shows "\<exists>session' r'.
      updateSession (Suc fuel) now now' r sessionId updates = Some (Inr session', r')
    \<and> status session' = (case u_status updates of None \<Rightarrow> status session | Some st \<Rightarrow> st)
    \<and> (\<forall>k. cookies session' k =
          (case u_cookies updates of None \<Rightarrow> cookies session k
           | Some c \<Rightarrow> (case c k of None \<Rightarrow> cookies session k | Some v \<Rightarrow> Some v)))
    \<and> (\<forall>k. tokens session' k =
          (case u_tokens updates of None \<Rightarrow> tokens session k
           | Some c \<Rightarrow> (case c k of None \<Rightarrow> tokens session k | Some v \<Rightarrow> Some v)))
    \<and> (\<forall>k. sessionStorage session' k =
          (case u_sessionStorage updates of None \<Rightarrow> sessionStorage session k
           | Some c \<Rightarrow> (case c k of None \<Rightarrow> sessionStorage session k | Some v \<Rightarrow> Some v)))
    \<and> (\<forall>k. localStorage session' k =
          (case u_localStorage updates of None \<Rightarrow> localStorage session k
           | Some c \<Rightarrow> (case c k of None \<Rightarrow> localStorage session k | Some v \<Rightarrow> Some v)))
    \<and> expiresAt session' = expiresAt session
    \<and> (if 0 < (expiresAt session - now') div 1000
        then map_of (strings r') sessionId = Some ((expiresAt session - now') div 1000, session')
           \<and> (\<forall>k. k \<noteq> sessionId \<longrightarrow> map_of (strings r') k = map_of (strings r) k)
           \<and> sets r' = sets r
        else r' = r)"
proof -
  let ?s = "applyUpdates session updates now'"
  let ?ttl = "(expiresAt session - now') div 1000"
  let ?r = "if 0 < ?ttl then redis_setex r sessionId ?ttl ?s else r"
  have run: "updateSession (Suc fuel) now now' r sessionId updates = Some (Inr ?s, ?r)"
    using assms by (rule updateSession_live)
  have st: "status ?s = (case u_status updates of None \<Rightarrow> status session | Some st \<Rightarrow> st)"
    by (rule applyUpdates_status)
  have ck: "\<forall>k. cookies ?s k =
          (case u_cookies updates of None \<Rightarrow> cookies session k
           | Some c \<Rightarrow> (case c k of None \<Rightarrow> cookies session k | Some v \<Rightarrow> Some v))"
    by (simp add: applyUpdates_cookies map_add_def split: option.splits)
  have tk: "\<forall>k. tokens ?s k =
          (case u_tokens updates of None \<Rightarrow> tokens session k
           | Some c \<Rightarrow> (case c k of None \<Rightarrow> tokens session k | Some v \<Rightarrow> Some v))"
    by (simp add: applyUpdates_tokens map_add_def split: option.splits)
  have ss: "\<forall>k. sessionStorage ?s k =
          (case u_sessionStorage updates of None \<Rightarrow> sessionStorage session k
           | Some c \<Rightarrow> (case c k of None \<Rightarrow> sessionStorage session k | Some v \<Rightarrow> Some v))"
    by (simp add: applyUpdates_sessionStorage map_add_def split: option.splits)
  have ls: "\<forall>k. localStorage ?s k =
          (case u_localStorage updates of None \<Rightarrow> localStorage session k
           | Some c \<Rightarrow> (case c k of None \<Rightarrow> localStorage session k | Some v \<Rightarrow> Some v))"
    by (simp add: applyUpdates_localStorage map_add_def split: option.splits)
  have ex: "expiresAt ?s = expiresAt session"
    by (rule applyUpdates_fixed)
  have wr: "if 0 < ?ttl
        then map_of (strings ?r) sessionId = Some (?ttl, ?s)
           \<and> (\<forall>k. k \<noteq> sessionId \<longrightarrow> map_of (strings ?r) k = map_of (strings r) k)
           \<and> sets ?r = sets r
        else ?r = r"
    by (simp add: redis_setex_def update_conv')
  from run st ck tk ss ls ex wr show ?thesis by blast
qed

text \<open>
  The scenario of the specification: the cookie \<open>a = 1\<close> merged onto a session that holds
  the cookie \<open>b = 2\<close>, written 58 seconds before the deadline.
\<close>

theorem updateSession_merges_witness:
  "redis_get store1 ''s1'' = Some session1 \<and> \<not> expiresAt session1 < 1000 \<and>
   (\<exists>session' r'.
      updateSession (Suc 0) 1000 2000 store1 ''s1'' update1 = Some (Inr session', r')
    \<and> cookies session' ''a'' = Some ''1'' \<and> cookies session' ''b'' = Some ''2''
    \<and> expiresAt session' = 60000
    \<and> map_of (strings r') ''s1'' = Some (58, session'))"
proof -
  have h1: "redis_get store1 ''s1'' = Some session1"
    by (simp add: redis_get_def store1_def)
  have h2: "\<not> expiresAt session1 < 1000"
    by (simp add: session1_def)
  from updateSession_merges [OF h1 h2, of 0 2000 update1]
  obtain session' r' where
    "updateSession (Suc 0) 1000 2000 store1 ''s1'' update1 = Some (Inr session', r')"
    "\<forall>k. cookies session' k =
          (case u_cookies update1 of None \<Rightarrow> cookies session1 k
           | Some c \<Rightarrow> (case c k of None \<Rightarrow> cookies session1 k | Some v \<Rightarrow> Some v))"
    "expiresAt session' = expiresAt session1"
    "if 0 < (expiresAt session1 - 2000) div 1000
        then map_of (strings r') ''s1'' = Some ((expiresAt session1 - 2000) div 1000, session')
           \<and> (\<forall>k. k \<noteq> ''s1'' \<longrightarrow> map_of (strings r') k = map_of (strings store1) k)
           \<and> sets r' = sets store1
        else r' = store1"
    by blast
  then have "updateSession (Suc 0) 1000 2000 store1 ''s1'' update1 = Some (Inr session', r')
    \<and> cookies session' ''a'' = Some ''1'' \<and> cookies session' ''b'' = Some ''2''
    \<and> expiresAt session' = 60000
    \<and> map_of (strings r') ''s1'' = Some (58, session')"
    by (simp add: update1_def session1_def)
  with h1 h2 show ?thesis by blast
qed

text \<open>
  C10. When the remaining time-to-live is zero or negative at the time of writing,
  \<open>updateSession\<close> raises nothing: it returns the session with the update applied and
  \<open>updatedAt\<close> set to the time of writing, and the store is exactly the one it started from.
\<close>

theorem updateSession_no_write_when_expired:
  assumes "redis_get r sessionId = Some session" and "\<not> expiresAt session < now"
    and "(expiresAt session - now') div 1000 \<le> 0"
  shows "\<exists>session'.
      updateSession (Suc fuel) now now' r sessionId updates = Some (Inr session', r)
    \<and> updatedAt session' = now'
    \<and> status session' = (case u_status updates of None \<Rightarrow> status session | Some st \<Rightarrow> st)
    \<and> cookies session' =
         (case u_cookies updates of None \<Rightarrow> cookies session | Some c \<Rightarrow> cookies session ++ c)
    \<and> tokens session' =
         (case u_tokens updates of None \<Rightarrow> tokens session | Some c \<Rightarrow> tokens session ++ c)
    \<and> sessionStorage session' =
         (case u_sessionStorage updates of None \<Rightarrow> sessionStorage session
          | Some c \<Rightarrow> sessionStorage session ++ c)
    \<and> localStorage session' =
         (case u_localStorage updates of None \<Rightarrow> localStorage session
          | Some c \<Rightarrow> localStorage session ++ c)"
proof -
  let ?s = "applyUpdates session updates now'"
  have "updateSession (Suc fuel) now now' r sessionId updates = Some (Inr ?s, r)"
    using assms by (simp add: updateSession_live)
  moreover have "updatedAt ?s = now'"
    by (rule applyUpdates_fixed)
  ultimately show ?thesis
    using applyUpdates_status applyUpdates_cookies applyUpdates_tokens
      applyUpdates_sessionStorage applyUpdates_localStorage
    by blast
qed

text \<open>The same update written half a second before the deadline.\<close>

theorem updateSession_no_write_when_expired_witness:
  "redis_get store1 ''s1'' = Some session1 \<and> \<not> expiresAt session1 < 59000
   \<and> (expiresAt session1 - 59500) div 1000 \<le> 0
   \<and> (\<exists>session'.
        updateSession (Suc 0) 59000 59500 store1 ''s1'' update1 = Some (Inr session', store1)
      \<and> updatedAt session' = 59500
      \<and> cookies session' ''a'' = Some ''1'' \<and> cookies session' ''b'' = Some ''2'')"
proof -
  have h1: "redis_get store1 ''s1'' = Some session1"
    by (simp add: redis_get_def store1_def)
  have h2: "\<not> expiresAt session1 < 59000"
    by (simp add: session1_def)
  have h3: "(expiresAt session1 - 59500) div 1000 \<le> 0"
    by (simp add: session1_def)
  from updateSession_no_write_when_expired [OF h1 h2 h3, of 0 update1]
  obtain session' where
    "updateSession (Suc 0) 59000 59500 store1 ''s1'' update1 = Some (Inr session', store1)"
    "updatedAt session' = 59500"
    "cookies session' =
         (case u_cookies update1 of None \<Rightarrow> cookies session1 | Some c \<Rightarrow> cookies session1 ++ c)"
    by blast
  then have "updateSession (Suc 0) 59000 59500 store1 ''s1'' update1 = Some (Inr session', store1)
      \<and> updatedAt session' = 59500
      \<and> cookies session' ''a'' = Some ''1'' \<and> cookies session' ''b'' = Some ''2''"
    by (simp add: update1_def session1_def)
  with h1 h2 h3 show ?thesis by blast
qed

section \<open>Claims on the owner index\<close>

text \<open>
  What does hold of \<open>getUserSessions\<close>: when the loop returns, every session it hands back
  passed the expiry check at the clock reading \<open>now\<close>, and no record was touched.
\<close>

lemma getUserSessions_loop_live:
  assumes "getUserSessions_loop fuel now user ids acc r = Some (found, r')"
    and "\<forall>s \<in> set acc. \<not> expiresAt s < now"
  shows "(\<forall>s \<in> set found. \<not> expiresAt s < now) \<and> strings r' = strings r"
  using assms
proof (induction ids arbitrary: acc r)
  case Nil
  then show ?case by simp
next
  case (Cons sessionId rest)
  from Cons.prems(1) obtain x r1 where g: "getSession fuel now r sessionId = Some (x, r1)"
    by (auto split: option.splits)
  note ret = getSession_returns [OF g]
  show ?case
  proof (cases x)
    case (Inl e)
    with Cons.prems g ret
    have "getUserSessions_loop fuel now user rest acc (redis_srem r user sessionId) = Some (found, r')"
      by simp
    from Cons.IH [OF this Cons.prems(2)] show ?thesis
      by (simp add: redis_srem_def)
  next
    case (Inr session)
    with Cons.prems g ret
    have run: "getUserSessions_loop fuel now user rest (acc @ [session]) r = Some (found, r')"
      by simp
    from Inr ret Cons.prems(2) have "\<forall>s \<in> set (acc @ [session]). \<not> expiresAt s < now"
      by auto
    from Cons.IH [OF run this] show ?thesis .
  qed
qed

text \<open>
  And when the call returns, the owner's index has lost exactly the members whose record
  was missing; in particular no member without a record is left.
\<close>

lemma getUserSessions_loop_prunes:
  assumes "getUserSessions_loop fuel now user ids acc r = Some (found, r')"
  shows "sets r' user = filter (\<lambda>i. i \<notin> set ids \<or> redis_get r i \<noteq> None) (sets r user)"
  using assms
proof (induction ids arbitrary: acc r)
  case Nil
  then show ?case by simp
next
  case (Cons sessionId rest)
  from Cons.prems obtain x r1 where g: "getSession fuel now r sessionId = Some (x, r1)"
    by (auto split: option.splits)
  note ret = getSession_returns [OF g]
  show ?case
  proof (cases x)
    case (Inl e)
    let ?r1 = "redis_srem r user sessionId"
    from Inl Cons.prems g ret
    have run: "getUserSessions_loop fuel now user rest acc ?r1 = Some (found, r')"
      by simp
    from Inl ret have missing: "redis_get r sessionId = None" by simp
    have "sets r' user = filter (\<lambda>i. i \<notin> set rest \<or> redis_get ?r1 i \<noteq> None) (sets ?r1 user)"
      by (rule Cons.IH [OF run])
    also have "sets ?r1 user = filter (\<lambda>i. i \<noteq> sessionId) (sets r user)"
      by (simp add: redis_srem_def removeAll_filter_not_eq) metis
    finally show ?thesis
      using missing by (auto intro: filter_cong)
  next
    case (Inr session)
    from Inr Cons.prems g ret
    have run: "getUserSessions_loop fuel now user rest (acc @ [session]) r = Some (found, r')"
      by simp
    from Inr ret have present: "redis_get r sessionId \<noteq> None" by simp
    have "sets r' user = filter (\<lambda>i. i \<notin> set rest \<or> redis_get r i \<noteq> None) (sets r user)"
      by (rule Cons.IH [OF run])
    then show ?thesis
      using present by (auto intro: filter_cong)
  qed
qed

lemma getUserSessions_prunes_missing:
  assumes "getUserSessions fuel now r user = Some (found, r')"
    and "redis_get r sessionId = None"
  shows "sessionId \<notin> set (redis_smembers r' user)"
proof -
  from assms(1)
  have "getUserSessions_loop fuel now user (sets r user) [] r = Some (found, r')"
    by (simp add: getUserSessions_def redis_smembers_def)
  from getUserSessions_loop_prunes [OF this] assms(2) show ?thesis
    by (auto simp: redis_smembers_def)
qed

text \<open>
  C6. \<open>listByOwner\<close> is meant to prune the index entry of an expired record and to return
  the live sessions. Evaluated on \<open>store1\<close>, where the index of \<open>user@example.com\<close> holds
  \<open>s1\<close> and the record of \<open>s1\<close> has the deadline \<open>60000\<close>, at the clock reading \<open>70000\<close>:
  \<open>getUserSessions\<close> does not return, whatever depth of calls is allowed, because the
  lookup of \<open>s1\<close> does not.
\<close>

theorem getUserSessions_expired_diverges:
  "getUserSessions fuel 70000 store1 ''user@example.com'' = None"
proof -
  have "redis_get store1 ''s1'' = Some session1"
    by (simp add: redis_get_def store1_def)
  moreover have "expiresAt session1 < 70000"
    by (simp add: session1_def)
  ultimately have "getSession fuel 70000 store1 ''s1'' = None"
    using expired_never_returns by blast
  moreover have "redis_smembers store1 ''user@example.com'' = [''s1'']"
    by (simp add: redis_smembers_def store1_def)
  ultimately show ?thesis
    by (simp add: getUserSessions_def)
qed

section \<open>Claims on deleting a session\<close>

text \<open>
  What does hold of \<open>deleteSession\<close>: once a call has returned, the record is gone, and a
  second call returns without error and leaves the store as the first one left it.
\<close>

lemma deleteSession_twice:
  assumes "deleteSession fuel now r sessionId = Some (x, r1)"
  shows "deleteSession (Suc (Suc fuel')) now' r1 sessionId = Some (Inr (), r1)
         \<and> redis_get r1 sessionId = None"
proof -
  from deleteSession_returns [OF assms] have "redis_get r1 sessionId = None"
    by (auto split: option.splits)
  then show ?thesis by simp
qed

text \<open>
  C7. \<open>delete(id)\<close> is meant to remove the stored record, whatever it is. Evaluated on
  \<open>store1\<close> at the clock reading \<open>70000\<close>, where the record of \<open>s1\<close> is stored and expired:
  \<open>deleteSession\<close> does not return, whatever depth of calls is allowed, so the record and
  its index entry stay.
\<close>

theorem deleteSession_expired_diverges:
  "deleteSession fuel 70000 store1 ''s1'' = None"
proof -
  have "redis_get store1 ''s1'' = Some session1"
    by (simp add: redis_get_def store1_def)
  moreover have "expiresAt session1 < 70000"
    by (simp add: session1_def)
  ultimately show ?thesis
    using expired_never_returns by blast
qed

section \<open>Claims on the session ceiling\<close>

text \<open>
  The number of keys \<open>getActiveSessionCount\<close> counts grows by at most one when a record is
  written and not at all when the key is already there; no other call of the service, run
  on its own from start to end, adds a key.
\<close>

lemma length_alist_update:
  "length (AList.update k v al) = (if k \<in> fst ` set al then length al else Suc (length al))"
  by (induction al) auto

lemma count_setex_le:
  "getActiveSessionCount (redis_setex r key ttl v) \<le> Suc (getActiveSessionCount r)"
  by (simp add: getActiveSessionCount_def redis_keys_def redis_setex_def length_alist_update)

lemma count_setex_present:
  "redis_get r key = Some v0 \<Longrightarrow>
     getActiveSessionCount (redis_setex r key ttl v) = getActiveSessionCount r"
proof -
  assume "redis_get r key = Some v0"
  then have "map_of (strings r) key \<noteq> None"
    by (auto simp: redis_get_def)
  then have "key \<in> fst ` set (strings r)"
    by (simp add: map_of_eq_None_iff)
  then show ?thesis
    by (simp add: getActiveSessionCount_def redis_keys_def redis_setex_def length_alist_update)
qed

lemma count_del_le: "getActiveSessionCount (redis_del r key) \<le> getActiveSessionCount r"
  by (simp add: getActiveSessionCount_def redis_keys_def redis_del_def length_delete_le)

lemma count_srem [simp]: "getActiveSessionCount (redis_srem r user member) = getActiveSessionCount r"
  by (simp add: getActiveSessionCount_def redis_keys_def redis_srem_def)

lemma count_sadd [simp]: "getActiveSessionCount (redis_sadd r user member) = getActiveSessionCount r"
  by (simp add: getActiveSessionCount_def redis_keys_def redis_sadd_def)

lemma redis_get_setex [simp]: "redis_get (redis_setex r key ttl v) key = Some v"
  by (simp add: redis_get_def redis_setex_def update_conv')

lemma redis_get_sadd [simp]: "redis_get (redis_sadd r user member) key = redis_get r key"
  by (simp add: redis_get_def redis_sadd_def)

lemma smembers_sadd [simp]: "member \<in> set (redis_smembers (redis_sadd r user member) user)"
  by (simp add: redis_smembers_def redis_sadd_def)

lemma createSession_below:
  assumes "int (getActiveSessionCount r) < maxSessions cfg"
  shows "\<exists>session r'. createSession cfg sessionId now r options = (Inr session, r')
           \<and> sid session = sessionId \<and> username session = c_username options
           \<and> redis_get r' sessionId = Some session
           \<and> sessionId \<in> set (redis_smembers r' (c_username options))
           \<and> getActiveSessionCount r' \<le> Suc (getActiveSessionCount r)"
  using assms
  by (simp add: createSession_def Let_def count_setex_le)

lemma createSession_full:
  assumes "maxSessions cfg \<le> int (getActiveSessionCount r)"
  shows "createSession cfg sessionId now r options =
           (Inl (AppError ''Maximum session limit reached'' 503 (Some ''MAX_SESSIONS_EXCEEDED'')), r)"
  using assms by (simp add: createSession_def Let_def)

lemma createSession_bounded:
  assumes "int (getActiveSessionCount r) \<le> maxSessions cfg"
  shows "int (getActiveSessionCount (snd (createSession cfg sessionId now r options))) \<le> maxSessions cfg"
proof (cases "maxSessions cfg \<le> int (getActiveSessionCount r)")
  case True
  with assms show ?thesis by (simp add: createSession_full)
next
  case False
  then have below: "int (getActiveSessionCount r) < maxSessions cfg" by simp
  from createSession_below [OF below, of sessionId now options]
  obtain session r' where "createSession cfg sessionId now r options = (Inr session, r')"
    and "getActiveSessionCount r' \<le> Suc (getActiveSessionCount r)"
    by blast
  with below show ?thesis by simp
qed

lemma getUserSessions_count:
  assumes "getUserSessions fuel now r user = Some (found, r')"
  shows "getActiveSessionCount r' = getActiveSessionCount r"
proof -
  from assms have "getUserSessions_loop fuel now user (redis_smembers r user) [] r = Some (found, r')"
    by (simp add: getUserSessions_def)
  then have "strings r' = strings r"
    using getUserSessions_loop_live by fastforce
  then show ?thesis
    by (simp add: getActiveSessionCount_def redis_keys_def)
qed

lemma updateSession_count:
  assumes "updateSession fuel now now' r sessionId updates = Some (x, r')"
  shows "getActiveSessionCount r' = getActiveSessionCount r"
proof -
  from assms obtain y r1 where g: "getSession fuel now r sessionId = Some (y, r1)"
    by (auto simp: updateSession_def split: option.splits)
  from getSession_returns [OF g] g assms show ?thesis
    by (cases y) (auto simp: updateSession_def Let_def count_setex_present split: if_splits)
qed

lemma extendSession_count:
  assumes "extendSession fuel now now' r sessionId additionalMinutes = Some (x, r')"
  shows "getActiveSessionCount r' = getActiveSessionCount r"
proof -
  from assms obtain y r1 where g: "getSession fuel now r sessionId = Some (y, r1)"
    by (auto simp: extendSession_def split: option.splits)
  from getSession_returns [OF g] g assms show ?thesis
    by (cases y) (auto simp: extendSession_def Let_def count_setex_present)
qed

lemma deleteSession_count:
  assumes "deleteSession fuel now r sessionId = Some (x, r')"
  shows "getActiveSessionCount r' \<le> getActiveSessionCount r"
  using deleteSession_returns [OF assms]
  by (auto simp: count_del_le split: option.splits)

text \<open>
  A call of \<open>createSession\<close> is its three requests to the store made back to back, and the
  live sessions are among the stored ones.
\<close>

lemma createSession_steps:
  "interleave cfg [0, 0, 0] [Started sessionId now options] r =
     ([Finished (fst (createSession cfg sessionId now r options))],
      snd (createSession cfg sessionId now r options))"
  by (simp add: createSession_def newSession_def Let_def)

lemma liveSessionCount_le: "liveSessionCount now r \<le> getActiveSessionCount r"
  by (simp add: liveSessionCount_def getActiveSessionCount_def redis_keys_def)

text \<open>
  C4, as claimed: the number of live stored sessions never exceeds the ceiling, and a
  creation succeeds while the live count is below it. Evaluated with a ceiling of one. Two
  creations called on the empty store take turns at the store: each counts no key, each
  writes its record, both finish with success, and the store holds two sessions, both live.
  And on \<open>store1\<close> at the clock reading \<open>70000\<close> no session is live, the deadline of \<open>s1\<close>
  being \<open>60000\<close>, yet its record is a stored key and the creation is rejected.
\<close>

theorem createSession_ceiling_counterexample:
  "maxSessions config1 = 1
   \<and> getActiveSessionCount store0 = 0
   \<and> fst (interleave config1 turns creations2 store0) =
        [Finished (Inr (newSession config1 ''s1'' 0 options1)),
         Finished (Inr (newSession config1 ''s2'' 0 options1))]
   \<and> getActiveSessionCount (snd (interleave config1 turns creations2 store0)) = 2
   \<and> liveSessionCount 0 (snd (interleave config1 turns creations2 store0)) = 2
   \<and> liveSessionCount 70000 store1 = 0
   \<and> createSession config1 ''s2'' 70000 store1 options1 =
        (Inl (AppError ''Maximum session limit reached'' 503 (Some ''MAX_SESSIONS_EXCEEDED'')),
         store1)"
proof -
  have m: "maxSessions config1 = 1"
    by (simp add: config1_def)
  have c0: "getActiveSessionCount store0 = 0"
    by (simp add: getActiveSessionCount_def redis_keys_def store0_def)
  let ?s1 = "newSession config1 ''s1'' 0 options1"
  let ?s2 = "newSession config1 ''s2'' 0 options1"
  have ids: "sid ?s1 = ''s1''" "sid ?s2 = ''s2''"
    and times: "expiresAt ?s1 = 3600000" "expiresAt ?s2 = 3600000"
      "createdAt ?s1 = 0" "createdAt ?s2 = 0"
    and users: "username ?s1 = ''user@example.com''" "username ?s2 = ''user@example.com''"
    by (simp_all add: newSession_def options1_def config1_def)
  have run: "interleave config1 turns creations2 store0 =
       ([Finished (Inr ?s1), Finished (Inr ?s2)],
        redis_sadd (redis_sadd (redis_setex (redis_setex store0 ''s1'' 3600 ?s1) ''s2'' 3600 ?s2)
          ''user@example.com'' ''s1'') ''user@example.com'' ''s2'')"
    by (simp add: turns_def creations2_def c0 m ids times users)
  have keys2: "getActiveSessionCount
       (redis_setex (redis_setex store0 ''s1'' 3600 ?s1) ''s2'' 3600 ?s2) = 2"
    by (simp add: getActiveSessionCount_def redis_keys_def redis_setex_def store0_def)
  have live2: "liveSessionCount 0
       (redis_sadd (redis_sadd (redis_setex (redis_setex store0 ''s1'' 3600 ?s1) ''s2'' 3600 ?s2)
          ''user@example.com'' ''s1'') ''user@example.com'' ''s2'') = 2"
    by (simp add: liveSessionCount_def redis_sadd_def redis_setex_def store0_def times)
  have live0: "liveSessionCount 70000 store1 = 0"
    by (simp add: liveSessionCount_def store1_def session1_def)
  have full: "maxSessions config1 \<le> int (getActiveSessionCount store1)"
    by (simp add: getActiveSessionCount_def redis_keys_def store1_def config1_def)
  from m c0 run keys2 live2 live0 createSession_full [OF full, of "''s2''" 70000 options1]
  show ?thesis by simp
qed

text \<open>
  C4, amended. \<open>createSession\<close> holds the number of stored session records, as it counts
  them, against the ceiling. While that number is below the ceiling the creation succeeds,
  and the record is stored under the new identifier and entered in the owner's index. Once
  it has reached the ceiling the creation fails with the capacity error and leaves the store
  as it was. And a creation that makes its requests to the store back to back leaves a number
  of stored records that was within the ceiling within it, and so the number of live
  sessions at any clock reading.
\<close>

theorem createSession_enforces_ceiling:
  "(int (getActiveSessionCount r) < maxSessions cfg \<longrightarrow>
      (\<exists>session r'. createSession cfg sessionId now r options = (Inr session, r')
         \<and> sid session = sessionId
         \<and> redis_get r' sessionId = Some session
         \<and> sessionId \<in> set (redis_smembers r' (c_username options))))
   \<and> (maxSessions cfg \<le> int (getActiveSessionCount r) \<longrightarrow>
        createSession cfg sessionId now r options =
          (Inl (AppError ''Maximum session limit reached'' 503 (Some ''MAX_SESSIONS_EXCEEDED'')), r))
   \<and> (int (getActiveSessionCount r) \<le> maxSessions cfg \<longrightarrow>
        int (getActiveSessionCount (snd (createSession cfg sessionId now r options)))
          \<le> maxSessions cfg
        \<and> int (liveSessionCount t (snd (createSession cfg sessionId now r options)))
          \<le> maxSessions cfg)"
proof (intro conjI impI)
  assume "int (getActiveSessionCount r) < maxSessions cfg"
  from createSession_below [OF this, of sessionId now options]
  show "\<exists>session r'. createSession cfg sessionId now r options = (Inr session, r')
         \<and> sid session = sessionId
         \<and> redis_get r' sessionId = Some session
         \<and> sessionId \<in> set (redis_smembers r' (c_username options))"
    by blast
next
  assume "maxSessions cfg \<le> int (getActiveSessionCount r)"
  then show "createSession cfg sessionId now r options =
          (Inl (AppError ''Maximum session limit reached'' 503 (Some ''MAX_SESSIONS_EXCEEDED'')), r)"
    by (rule createSession_full)
next
  assume within: "int (getActiveSessionCount r) \<le> maxSessions cfg"
  then show "int (getActiveSessionCount (snd (createSession cfg sessionId now r options)))
          \<le> maxSessions cfg"
    by (rule createSession_bounded)
  with liveSessionCount_le [of t "snd (createSession cfg sessionId now r options)"]
  show "int (liveSessionCount t (snd (createSession cfg sessionId now r options)))
          \<le> maxSessions cfg"
    by linarith
qed

text \<open>
  With a ceiling of one: a creation on the empty store succeeds and leaves one record, and
  a creation on a store that holds one record is rejected.
\<close>

theorem createSession_enforces_ceiling_witness:
  "int (getActiveSessionCount store0) < maxSessions config1
   \<and> (\<exists>session r'. createSession config1 ''s1'' 0 store0 options1 = (Inr session, r')
         \<and> redis_get r' ''s1'' = Some session)
   \<and> maxSessions config1 \<le> int (getActiveSessionCount store1)
   \<and> createSession config1 ''s2'' 0 store1 options1 =
        (Inl (AppError ''Maximum session limit reached'' 503 (Some ''MAX_SESSIONS_EXCEEDED'')),
         store1)
   \<and> int (getActiveSessionCount store0) \<le> maxSessions config1
   \<and> int (getActiveSessionCount (snd (createSession config1 ''s1'' 0 store0 options1))) \<le> 1
   \<and> int (liveSessionCount 0 (snd (createSession config1 ''s1'' 0 store0 options1))) \<le> 1"
proof -
  have a: "int (getActiveSessionCount store0) < maxSessions config1"
    by (simp add: getActiveSessionCount_def redis_keys_def store0_def config1_def)
  have b: "maxSessions config1 \<le> int (getActiveSessionCount store1)"
    by (simp add: getActiveSessionCount_def redis_keys_def store1_def config1_def)
  have m: "maxSessions config1 = 1" by (simp add: config1_def)
  from a b m
    createSession_enforces_ceiling [of store0 config1 "''s1''" 0 options1 0]
    createSession_enforces_ceiling [of store1 config1 "''s2''" 0 options1 0]
  show ?thesis by auto
qed

section \<open>Claims on the circuit breaker\<close>

text \<open>
  A failed call on a closed breaker reaches the HTTP client and adds one to the failure
  counter; the breaker opens when the counter reaches \<open>maxFailures\<close>, and records the
  time of the failure plus \<open>resetTimeout\<close> as the deadline of the cooldown.
\<close>

lemma isCircuitOpen_closed:
  "circuitBreakers svc endpoint = Some b \<Longrightarrow> \<not> isOpen b \<Longrightarrow>
     isCircuitOpen now svc endpoint = (False, svc)"
  by (simp add: isCircuitOpen_def)

lemma isCircuitOpen_cooling:
  "circuitBreakers svc endpoint = Some b \<Longrightarrow> isOpen b \<Longrightarrow> nextRetryTime b = Some deadline \<Longrightarrow>
     now < deadline \<Longrightarrow> isCircuitOpen now svc endpoint = (True, svc)"
  by (simp add: isCircuitOpen_def)

lemma isCircuitOpen_cooled:
  "circuitBreakers svc endpoint = Some b \<Longrightarrow> isOpen b \<Longrightarrow> nextRetryTime b = Some deadline \<Longrightarrow>
     deadline \<le> now \<Longrightarrow>
     isCircuitOpen now svc endpoint =
       (False, svc\<lparr>circuitBreakers := (circuitBreakers svc)(endpoint \<mapsto>
                  b\<lparr>isOpen := False, failures := 0, lastFailureTime := None, nextRetryTime := None\<rparr>)\<rparr>)"
  by (simp add: isCircuitOpen_def)

lemma callWebhook_failure_closed:
  assumes "circuitBreakers svc endpoint = Some b" and "\<not> isOpen b" and "\<not> isResolved reply"
  shows "circuitBreakers (snd (callWebhook tcfg now reply later svc endpoint payload timeout)) endpoint =
           Some (if maxFailures \<le> failures b + 1
                 then b\<lparr>failures := failures b + 1, lastFailureTime := Some later,
                        isOpen := True, nextRetryTime := Some (later + resetTimeout)\<rparr>
                 else b\<lparr>failures := failures b + 1, lastFailureTime := Some later\<rparr>)
       \<and> requests (snd (callWebhook tcfg now reply later svc endpoint payload timeout)) =
           requests svc @ [(endpoint, payload, effectiveTimeout tcfg timeout)]"
proof (cases reply)
  case (Resolved data)
  with assms show ?thesis by simp
next
  case (RejectedAxios error)
  with assms show ?thesis
    by (simp add: callWebhook_def isCircuitOpen_closed Let_def recordFailure_def
        effectiveTimeout_def split: option.splits)
next
  case (RejectedOther msg)
  with assms show ?thesis
    by (simp add: callWebhook_def isCircuitOpen_closed Let_def recordFailure_def
        effectiveTimeout_def split: option.splits)
qed

lemma consecutiveCalls_append:
  "consecutiveCalls tcfg svc endpoint payload (xs @ ys) =
     consecutiveCalls tcfg (consecutiveCalls tcfg svc endpoint payload xs) endpoint payload ys"
  by (induction xs arbitrary: svc) auto

lemma failures_below_threshold:
  assumes "circuitBreakers svc endpoint = Some b" and "\<not> isOpen b"
    and "\<forall>c \<in> set calls. \<not> isResolved (fst (snd c))"
    and "failures b + length calls < maxFailures"
  shows "\<exists>b'. circuitBreakers (consecutiveCalls tcfg svc endpoint payload calls) endpoint = Some b'
           \<and> \<not> isOpen b' \<and> failures b' = failures b + length calls
           \<and> length (requests (consecutiveCalls tcfg svc endpoint payload calls)) =
               length (requests svc) + length calls"
  using assms
proof (induction calls arbitrary: svc b)
  case Nil
  then show ?case by simp
next
  case (Cons c rest)
  obtain now reply later where c: "c = (now, reply, later)"
    by (cases c) auto
  let ?svc1 = "snd (callWebhook tcfg now reply later svc endpoint payload None)"
  let ?b1 = "b\<lparr>failures := failures b + 1, lastFailureTime := Some later\<rparr>"
  from Cons.prems c have rej: "\<not> isResolved reply" by simp
  from Cons.prems(4) have small: "\<not> maxFailures \<le> failures b + 1" by simp
  from callWebhook_failure_closed [OF Cons.prems(1) Cons.prems(2) rej, of tcfg now later payload None] small
  have st: "circuitBreakers ?svc1 endpoint = Some ?b1"
    and rq: "length (requests ?svc1) = length (requests svc) + 1"
    by simp_all
  have "\<exists>b'. circuitBreakers (consecutiveCalls tcfg ?svc1 endpoint payload rest) endpoint = Some b'
           \<and> \<not> isOpen b' \<and> failures b' = failures ?b1 + length rest
           \<and> length (requests (consecutiveCalls tcfg ?svc1 endpoint payload rest)) =
               length (requests ?svc1) + length rest"
  proof (rule Cons.IH [OF st])
    show "\<not> isOpen ?b1" using Cons.prems(2) by simp
    show "\<forall>c \<in> set rest. \<not> isResolved (fst (snd c))" using Cons.prems(3) by simp
    show "failures ?b1 + length rest < maxFailures" using Cons.prems(4) by simp
  qed
  with c rq show ?case by simp
qed


lemma requests_recordFailure [simp]: "requests (recordFailure now svc endpoint) = requests svc"
  by (simp add: recordFailure_def Let_def split: option.splits)

lemma requests_recordSuccess [simp]: "requests (recordSuccess svc endpoint) = requests svc"
  by (simp add: recordSuccess_def split: option.splits)

lemma callWebhook_attempted:
  assumes "isCircuitOpen now svc endpoint = (False, svc0)"
  shows "requests (snd (callWebhook tcfg now reply later svc endpoint payload timeout)) =
           requests svc0 @ [(endpoint, payload, effectiveTimeout tcfg timeout)]
       \<and> (\<forall>data. reply = Resolved data \<longrightarrow>
             fst (callWebhook tcfg now reply later svc endpoint payload timeout) = Inr data)"
  using assms
  by (cases reply) (simp_all add: callWebhook_def Let_def split: option.splits)

text \<open>
  What holds with the threshold of the service itself. Take any endpoint whose breaker is
  closed with no failure counted, and \<open>maxFailures\<close> calls to it in a row that all fail.
  All of them reach the HTTP client, and after the last the breaker is open, with the
  cooldown deadline \<open>resetTimeout\<close> after the last failure. A call that starts before the
  deadline fails with \<open>CircuitBreakerError\<close> and leaves the service as it is, the list of
  requests handed to the client included. A call that starts at or after the deadline finds
  the breaker reset to closed with a counter of zero, hands its request to the client, and
  returns the client's answer when the client succeeds.
\<close>

lemma circuit_breaker_opens_and_recovers:
  assumes "circuitBreakers svc endpoint = Some b" and "\<not> isOpen b" and "failures b = 0"
    and "\<forall>c \<in> set calls. \<not> isResolved (fst (snd c))"
    and "length calls = maxFailures"
  shows "let svc' = consecutiveCalls tcfg svc endpoint payload calls;
             deadline = snd (snd (last calls)) + resetTimeout
         in length (requests svc') = length (requests svc) + maxFailures
          \<and> (\<exists>b'. circuitBreakers svc' endpoint = Some b' \<and> isOpen b'
                 \<and> failures b' = maxFailures \<and> nextRetryTime b' = Some deadline)
          \<and> (now < deadline \<longrightarrow>
               callWebhook tcfg now reply later svc' endpoint payload' timeout =
                 (Inl (CircuitBreakerError (''n8n '' @ endpointName endpoint)), svc'))
          \<and> (deadline \<le> now \<longrightarrow>
               (\<exists>svc0 b0. isCircuitOpen now svc' endpoint = (False, svc0)
                  \<and> circuitBreakers svc0 endpoint = Some b0 \<and> \<not> isOpen b0 \<and> failures b0 = 0
                  \<and> requests (snd (callWebhook tcfg now reply later svc' endpoint payload' timeout)) =
                      requests svc' @ [(endpoint, payload', effectiveTimeout tcfg timeout)]
                  \<and> (\<forall>data. reply = Resolved data \<longrightarrow>
                        fst (callWebhook tcfg now reply later svc' endpoint payload' timeout) = Inr data)))"
proof -
  from assms(5) have "calls \<noteq> []" by (auto simp: maxFailures_def)
  then obtain front c where split: "calls = front @ [c]"
    by (metis append_butlast_last_id)
  obtain t0 reply0 t1 where c: "c = (t0, reply0, t1)" by (cases c) auto
  let ?mid = "consecutiveCalls tcfg svc endpoint payload front"
  let ?svc' = "consecutiveCalls tcfg svc endpoint payload calls"
  let ?deadline = "t1 + resetTimeout"
  from split assms(5) have len: "length front + 1 = maxFailures" by simp
  have "\<exists>b1. circuitBreakers ?mid endpoint = Some b1 \<and> \<not> isOpen b1
           \<and> failures b1 = failures b + length front
           \<and> length (requests ?mid) = length (requests svc) + length front"
  proof (rule failures_below_threshold [OF assms(1) assms(2)])
    show "\<forall>c \<in> set front. \<not> isResolved (fst (snd c))" using assms(4) split by simp
    show "failures b + length front < maxFailures" using assms(3) len by simp
  qed
  then obtain b1 where b1: "circuitBreakers ?mid endpoint = Some b1" "\<not> isOpen b1"
    and f1: "failures b1 = length front"
    and r1: "length (requests ?mid) = length (requests svc) + length front"
    using assms(3) by auto
  from assms(4) split c have rej: "\<not> isResolved reply0" by simp
  have svc': "?svc' = snd (callWebhook tcfg t0 reply0 t1 ?mid endpoint payload None)"
    by (simp add: split c consecutiveCalls_append)
  from callWebhook_failure_closed [OF b1 rej, of tcfg t0 t1 payload None] f1 len svc'
  have open': "circuitBreakers ?svc' endpoint =
                 Some (b1\<lparr>failures := failures b1 + 1, lastFailureTime := Some t1,
                          isOpen := True, nextRetryTime := Some ?deadline\<rparr>)"
    and rq: "length (requests ?svc') = length (requests ?mid) + 1"
    by simp_all
  let ?b' = "b1\<lparr>failures := failures b1 + 1, lastFailureTime := Some t1,
                  isOpen := True, nextRetryTime := Some ?deadline\<rparr>"
  have p1: "length (requests ?svc') = length (requests svc) + maxFailures"
    using rq r1 len by simp
  have p2: "\<exists>b'. circuitBreakers ?svc' endpoint = Some b' \<and> isOpen b'
                 \<and> failures b' = maxFailures \<and> nextRetryTime b' = Some ?deadline"
    using open' f1 len by simp
  have p3: "now < ?deadline \<longrightarrow>
               callWebhook tcfg now reply later ?svc' endpoint payload' timeout =
                 (Inl (CircuitBreakerError (''n8n '' @ endpointName endpoint)), ?svc')"
  proof
    assume "now < ?deadline"
    with open' have "isCircuitOpen now ?svc' endpoint = (True, ?svc')"
      by (simp add: isCircuitOpen_cooling)
    then show "callWebhook tcfg now reply later ?svc' endpoint payload' timeout =
                 (Inl (CircuitBreakerError (''n8n '' @ endpointName endpoint)), ?svc')"
      by (simp add: callWebhook_def)
  qed
  have p4: "?deadline \<le> now \<longrightarrow>
               (\<exists>svc0 b0. isCircuitOpen now ?svc' endpoint = (False, svc0)
                  \<and> circuitBreakers svc0 endpoint = Some b0 \<and> \<not> isOpen b0 \<and> failures b0 = 0
                  \<and> requests (snd (callWebhook tcfg now reply later ?svc' endpoint payload' timeout)) =
                      requests ?svc' @ [(endpoint, payload', effectiveTimeout tcfg timeout)]
                  \<and> (\<forall>data. reply = Resolved data \<longrightarrow>
                        fst (callWebhook tcfg now reply later ?svc' endpoint payload' timeout) = Inr data))"
  proof
    assume cooled: "?deadline \<le> now"
    let ?b0 = "?b'\<lparr>isOpen := False, failures := 0, lastFailureTime := None, nextRetryTime := None\<rparr>"
    let ?svc0 = "?svc'\<lparr>circuitBreakers := (circuitBreakers ?svc')(endpoint \<mapsto> ?b0)\<rparr>"
    from open' cooled have io: "isCircuitOpen now ?svc' endpoint = (False, ?svc0)"
      by (simp add: isCircuitOpen_cooled)
    from callWebhook_attempted [OF io, of tcfg reply later payload' timeout]
    have "requests (snd (callWebhook tcfg now reply later ?svc' endpoint payload' timeout)) =
            requests ?svc' @ [(endpoint, payload', effectiveTimeout tcfg timeout)]
         \<and> (\<forall>data. reply = Resolved data \<longrightarrow>
               fst (callWebhook tcfg now reply later ?svc' endpoint payload' timeout) = Inr data)"
      by simp
    moreover have "circuitBreakers ?svc0 endpoint = Some ?b0 \<and> \<not> isOpen ?b0 \<and> failures ?b0 = 0"
      by simp
    ultimately show "\<exists>svc0 b0. isCircuitOpen now ?svc' endpoint = (False, svc0)
                  \<and> circuitBreakers svc0 endpoint = Some b0 \<and> \<not> isOpen b0 \<and> failures b0 = 0
                  \<and> requests (snd (callWebhook tcfg now reply later ?svc' endpoint payload' timeout)) =
                      requests ?svc' @ [(endpoint, payload', effectiveTimeout tcfg timeout)]
                  \<and> (\<forall>data. reply = Resolved data \<longrightarrow>
                        fst (callWebhook tcfg now reply later ?svc' endpoint payload' timeout) = Inr data)"
      using io by blast
  qed
  have "snd (snd (last calls)) = t1" using split c by simp
  with p1 p2 p3 p4 show ?thesis by (simp add: Let_def)
qed

text \<open>
  On the login endpoint of a new service: after the five failing calls, a call at \<open>20000\<close>
  fails fast, and a call at \<open>70000\<close>, the deadline, returns the engine's answer.
\<close>

lemma circuit_breaker_opens_and_recovers_at_login:
  "circuitBreakers N8nService_new LOGIN = Some closedBreaker \<and> \<not> isOpen closedBreaker
   \<and> failures closedBreaker = 0
   \<and> map (isResolved \<circ> fst \<circ> snd) calls5 = [False, False, False, False, False]
   \<and> length calls5 = maxFailures
   \<and> (20000 :: int) < 10000 + resetTimeout
   \<and> callWebhook timeouts1 20000 (Resolved okResponse) 20500
        (consecutiveCalls timeouts1 N8nService_new LOGIN payload1 calls5) LOGIN payload1 None =
        (Inl (CircuitBreakerError ''n8n ubereats-login''),
         consecutiveCalls timeouts1 N8nService_new LOGIN payload1 calls5)
   \<and> 10000 + resetTimeout \<le> (70000 :: int)
   \<and> fst (callWebhook timeouts1 70000 (Resolved okResponse) 70500
        (consecutiveCalls timeouts1 N8nService_new LOGIN payload1 calls5) LOGIN payload1 None) =
        Inr okResponse"
proof -
  have h1: "circuitBreakers N8nService_new LOGIN = Some closedBreaker"
    by (simp add: N8nService_new_def closedBreaker_def)
  have h2: "\<not> isOpen closedBreaker" and h3: "failures closedBreaker = 0"
    by (simp_all add: closedBreaker_def)
  have h4: "\<forall>c \<in> set calls5. \<not> isResolved (fst (snd c))"
    by (simp add: calls5_def)
  have h5: "length calls5 = maxFailures"
    by (simp add: calls5_def maxFailures_def)
  have l: "snd (snd (last calls5)) = 10000"
    by (simp add: calls5_def)
  have t1: "(20000 :: int) < 10000 + resetTimeout" and t2: "10000 + resetTimeout \<le> (70000 :: int)"
    by (simp_all add: resetTimeout_def)
  from circuit_breaker_opens_and_recovers [OF h1 h2 h3 h4 h5,
      of timeouts1 payload1 20000 "Resolved okResponse" 20500 payload1 None] l t1
  have a: "callWebhook timeouts1 20000 (Resolved okResponse) 20500
        (consecutiveCalls timeouts1 N8nService_new LOGIN payload1 calls5) LOGIN payload1 None =
        (Inl (CircuitBreakerError ''n8n ubereats-login''),
         consecutiveCalls timeouts1 N8nService_new LOGIN payload1 calls5)"
    by (simp add: Let_def)
  from circuit_breaker_opens_and_recovers [OF h1 h2 h3 h4 h5,
      of timeouts1 payload1 70000 "Resolved okResponse" 70500 payload1 None] l t2
  have b: "fst (callWebhook timeouts1 70000 (Resolved okResponse) 70500
        (consecutiveCalls timeouts1 N8nService_new LOGIN payload1 calls5) LOGIN payload1 None) =
        Inr okResponse"
    by (auto simp: Let_def)
  have h4': "map (isResolved \<circ> fst \<circ> snd) calls5 = [False, False, False, False, False]"
    by (simp add: calls5_def)
  from h1 h2 h3 h4' h5 t1 t2 a b show ?thesis by blast
qed

text \<open>
  C3. The breaker is meant to open after as many failures in a row as the configured
  threshold says. Evaluated with a configured threshold of three, \<open>breakerConfig3\<close>, on the
  login endpoint of a new service: after three calls in a row that fail, the breaker is
  closed with three failures counted, and the next call is handed to the HTTP client and
  returns its answer instead of failing fast.
\<close>

theorem configured_threshold_not_applied:
  "threshold breakerConfig3 = 3
   \<and> length calls3 = threshold breakerConfig3
   \<and> map (isResolved \<circ> fst \<circ> snd) calls3 = [False, False, False]
   \<and> map_option isOpen
        (circuitBreakers (consecutiveCalls timeouts1 N8nService_new LOGIN payload1 calls3) LOGIN) =
        Some False
   \<and> map_option failures
        (circuitBreakers (consecutiveCalls timeouts1 N8nService_new LOGIN payload1 calls3) LOGIN) =
        Some 3
   \<and> fst (callWebhook timeouts1 6000 (Resolved okResponse) 6500
             (consecutiveCalls timeouts1 N8nService_new LOGIN payload1 calls3)
             LOGIN payload1 None) = Inr okResponse
   \<and> length (requests (snd (callWebhook timeouts1 6000 (Resolved okResponse) 6500
             (consecutiveCalls timeouts1 N8nService_new LOGIN payload1 calls3)
             LOGIN payload1 None))) = 4"
proof -
  let ?svc = "consecutiveCalls timeouts1 N8nService_new LOGIN payload1 calls3"
  have h1: "circuitBreakers N8nService_new LOGIN = Some closedBreaker"
    by (simp add: N8nService_new_def closedBreaker_def)
  have h2: "\<not> isOpen closedBreaker"
    by (simp add: closedBreaker_def)
  have h3: "\<forall>c \<in> set calls3. \<not> isResolved (fst (snd c))"
    by (simp add: calls3_def)
  have h4: "failures closedBreaker + length calls3 < maxFailures"
    by (simp add: closedBreaker_def calls3_def maxFailures_def)
  from failures_below_threshold [OF h1 h2 h3 h4, of timeouts1 payload1]
  obtain b where b: "circuitBreakers ?svc LOGIN = Some b" "\<not> isOpen b" "failures b = 3"
    and rq: "length (requests ?svc) = 3"
    by (auto simp: closedBreaker_def calls3_def N8nService_new_def)
  from b have pass: "isCircuitOpen 6000 ?svc LOGIN = (False, ?svc)"
    by (simp add: isCircuitOpen_closed)
  from callWebhook_attempted [OF pass, of timeouts1 "Resolved okResponse" 6500 payload1 None] rq
  have "fst (callWebhook timeouts1 6000 (Resolved okResponse) 6500 ?svc LOGIN payload1 None) =
          Inr okResponse
      \<and> length (requests (snd (callWebhook timeouts1 6000 (Resolved okResponse) 6500 ?svc
                                   LOGIN payload1 None))) = 4"
    by simp
  moreover have "threshold breakerConfig3 = 3 \<and> length calls3 = threshold breakerConfig3
      \<and> map (isResolved \<circ> fst \<circ> snd) calls3 = [False, False, False]"
    by (simp add: breakerConfig3_def calls3_def)
  ultimately show ?thesis using b by simp
qed

section \<open>Claims on manual login\<close>

text \<open>
  The \<open>status\<close> read off the details of an error is a number or \<open>undefined\<close>, never a
  string, so the comparison with \<open>'ECONNABORTED'\<close> in \<open>login\<close> never holds and \<open>login\<close>
  returns or raises exactly what \<open>callWebhook\<close> does.
\<close>

lemma detailsStatus_not_string: "detailsStatus e \<noteq> JsString s"
  by (cases e rule: detailsStatus.cases) (auto split: option.splits)

lemma login_is_callWebhook:
  "login tcfg now reply later svc sessionId manualMode =
     callWebhook tcfg now reply later svc LOGIN \<lparr> p_sessionId = sessionId, p_sessionData = None \<rparr>
       (Some (if manualMode then t_manualLogin tcfg else t_default tcfg))"
  by (simp add: login_def Let_def detailsStatus_not_string split: prod.splits sum.splits)

text \<open>
  C5. A manual login whose call times out is meant to return the outcome
  \<open>manual_login_started\<close>. Evaluated on a new service, in manual mode, with the HTTP client
  rejecting with the code \<open>ECONNABORTED\<close>: \<open>login\<close> raises the \<open>ExternalServiceError\<close> of
  the timeout. The failure is counted by the breaker of the login endpoint, as the claim says.
\<close>

theorem manual_login_timeout_is_error:
  "fst (login timeouts1 0 (RejectedAxios timeoutError) 10000 N8nService_new ''s1'' True) =
     Inl (ExternalServiceError ''n8n timeout'' (AxiosDetails timeoutError))
   \<and> map_option failures
        (circuitBreakers
           (snd (login timeouts1 0 (RejectedAxios timeoutError) 10000 N8nService_new ''s1'' True))
           LOGIN) = Some 1"
proof -
  have closed: "isCircuitOpen 0 N8nService_new LOGIN = (False, N8nService_new)"
    by (simp add: isCircuitOpen_def N8nService_new_def)
  have "login timeouts1 0 (RejectedAxios timeoutError) 10000 N8nService_new ''s1'' True =
          callWebhook timeouts1 0 (RejectedAxios timeoutError) 10000 N8nService_new LOGIN
            \<lparr> p_sessionId = ''s1'', p_sessionData = None \<rparr> (Some (t_manualLogin timeouts1))"
    by (simp add: login_is_callWebhook)
  also have "\<dots> =
     (Inl (ExternalServiceError ''n8n timeout'' (AxiosDetails timeoutError)),
      recordFailure 10000
        (N8nService_new\<lparr>requests := requests N8nService_new
           @ [(LOGIN, \<lparr> p_sessionId = ''s1'', p_sessionData = None \<rparr>,
               effectiveTimeout timeouts1 (Some (t_manualLogin timeouts1)))]\<rparr>) LOGIN)"
    by (simp add: callWebhook_def closed Let_def timeoutError_def)
  finally show ?thesis
    by (simp add: recordFailure_def N8nService_new_def Let_def maxFailures_def)
qed

section \<open>Claims on the ordering handlers\<close>

text \<open>A call that succeeds on a closed breaker with no failure counted only adds its request.\<close>

lemma gateway_passes_success:
  assumes "circuitBreakers svc endpoint = Some b" and "\<not> isOpen b" and "failures b = 0"
  shows "callWebhook tcfg now (Resolved data) later svc endpoint payload timeout =
           (Inr data, svc\<lparr>requests := requests svc
                              @ [(endpoint, payload, effectiveTimeout tcfg timeout)]\<rparr>)"
  using assms
  by (simp add: callWebhook_def isCircuitOpen_closed Let_def recordSuccess_def)

text \<open>
  C9, as claimed: a handler of the ordering flow persists the browser state of a successful
  answer before it returns. Evaluated on \<open>store1\<close> with an engine that answers \<open>add-items\<close>
  with success and the cookie \<open>a = 1\<close>: \<open>addItemsHandler\<close> returns the success outcome, and the
  store is \<open>store1\<close> still, whose session \<open>s1\<close> has no cookie \<open>a\<close>.
\<close>

theorem addItemsHandler_success_counterexample:
  "addItemsHandler timeouts1 (Suc 0) env1 world1 (Inr ''s1'') =
     Some ((outcome ''success'' ''Items added to cart successfully'')\<lparr>o_cartTotal := Some ''12.50''\<rparr>,
           \<lparr> store = store1,
             n8n = N8nService_new\<lparr>requests :=
                     [(ADD_ITEMS, \<lparr> p_sessionId = ''s1'', p_sessionData = Some (carried session1) \<rparr>,
                       60000)]\<rparr> \<rparr>)
   \<and> e_reply env1 = Resolved okResponse
   \<and> r_cookies okResponse = Some cookies1 \<and> cookies1 ''a'' = Some ''1''
   \<and> redis_get store1 ''s1'' = Some session1 \<and> cookies session1 ''a'' = None"
proof -
  have g: "getSession (Suc 0) 0 store1 ''s1'' = Some (Inr session1, store1)"
    by (rule getSession_live) (simp_all add: redis_get_def store1_def session1_def)
  have cb: "circuitBreakers N8nService_new ADD_ITEMS = Some closedBreaker"
    by (simp add: N8nService_new_def closedBreaker_def)
  have call: "addItems timeouts1 0 (Resolved okResponse) 500 N8nService_new ''s1'' (carried session1) =
     (Inr okResponse, N8nService_new\<lparr>requests :=
                     [(ADD_ITEMS, \<lparr> p_sessionId = ''s1'', p_sessionData = Some (carried session1) \<rparr>,
                       60000)]\<rparr>)"
    unfolding addItems_def
    by (subst gateway_passes_success [OF cb])
       (simp_all add: closedBreaker_def N8nService_new_def effectiveTimeout_def timeouts1_def)
  have sid1: "sid session1 = ''s1''" and act: "status session1 = ACTIVE"
    by (simp_all add: session1_def)
  have run: "addItemsHandler timeouts1 (Suc 0) env1 world1 (Inr ''s1'') =
     Some ((outcome ''success'' ''Items added to cart successfully'')\<lparr>o_cartTotal := Some ''12.50''\<rparr>,
           \<lparr> store = store1,
             n8n = N8nService_new\<lparr>requests :=
                     [(ADD_ITEMS, \<lparr> p_sessionId = ''s1'', p_sessionData = Some (carried session1) \<rparr>,
                       60000)]\<rparr> \<rparr>)"
  proof -
    have e: "e_now env1 = 0" "e_reply env1 = Resolved okResponse" "e_later env1 = 500"
      by (simp_all add: env1_def)
    have w: "store world1 = store1" "n8n world1 = N8nService_new"
      by (simp_all add: world1_def)
    have ok: "r_status okResponse = St_success" "r_cartTotal okResponse = Some ''12.50''"
      by (simp_all add: okResponse_def)
    show ?thesis
      by (simp add: addItemsHandler_def e w g sid1 act call ok del: getSession.simps)
  qed
  have "redis_get store1 ''s1'' = Some session1"
    by (simp add: redis_get_def store1_def)
  with run show ?thesis
    by (simp add: env1_def okResponse_def session1_def cookies1_def)
qed

text \<open>
  C9, amended. For a stored, live session in state \<open>ACTIVE\<close> and a call that the gateway
  returns with a successful answer of the engine, each of \<open>addItemsHandler\<close>,
  \<open>setAddressHandler\<close> and \<open>checkoutHandler\<close> returns its success outcome and leaves the store
  exactly as it was: the browser state in the answer is not written back.
\<close>

theorem cart_handlers_return_without_persisting:
  assumes "redis_get (store w) sessionId = Some session"
    and "\<not> expiresAt session < e_now env"
    and "status session = ACTIVE"
    and "r_status response = St_success"
  shows "(addItems tcfg (e_now env) (e_reply env) (e_later env) (n8n w) (sid session)
            (carried session) = (Inr response, svc1) \<longrightarrow>
          addItemsHandler tcfg (Suc fuel) env w (Inr sessionId) =
            Some ((outcome ''success'' ''Items added to cart successfully'')
                    \<lparr>o_cartTotal := r_cartTotal response\<rparr>,
                  \<lparr> store = store w, n8n = svc1 \<rparr>))
       \<and> (setDeliveryAddress tcfg (e_now env) (e_reply env) (e_later env) (n8n w) (sid session)
            (carried session) = (Inr response, svc1) \<longrightarrow>
          setAddressHandler tcfg (Suc fuel) env w (Inr sessionId) =
            Some (outcome ''success'' ''Delivery address set successfully'',
                  \<lparr> store = store w, n8n = svc1 \<rparr>))
       \<and> (checkout tcfg (e_now env) (e_reply env) (e_later env) (n8n w) (sid session)
            (carried session) = (Inr response, svc1) \<longrightarrow>
          checkoutHandler tcfg (Suc fuel) env w (Inr sessionId) =
            Some ((outcome ''success'' ''Order placed successfully'')
                    \<lparr>o_orderConfirmationNumber := r_orderConfirmationNumber response,
                     o_estimatedDeliveryTime := r_estimatedDeliveryTime response\<rparr>,
                  \<lparr> store = store w, n8n = svc1 \<rparr>))"
proof -
  have g: "getSession (Suc fuel) (e_now env) (store w) sessionId = Some (Inr session, store w)"
    using assms(1,2) by (rule getSession_live)
  have a: "addItems tcfg (e_now env) (e_reply env) (e_later env) (n8n w) (sid session)
            (carried session) = (Inr response, svc1) \<longrightarrow>
          addItemsHandler tcfg (Suc fuel) env w (Inr sessionId) =
            Some ((outcome ''success'' ''Items added to cart successfully'')
                    \<lparr>o_cartTotal := r_cartTotal response\<rparr>,
                  \<lparr> store = store w, n8n = svc1 \<rparr>)"
    using assms(3,4) by (simp add: addItemsHandler_def g del: getSession.simps)
  have b: "setDeliveryAddress tcfg (e_now env) (e_reply env) (e_later env) (n8n w) (sid session)
            (carried session) = (Inr response, svc1) \<longrightarrow>
          setAddressHandler tcfg (Suc fuel) env w (Inr sessionId) =
            Some (outcome ''success'' ''Delivery address set successfully'',
                  \<lparr> store = store w, n8n = svc1 \<rparr>)"
    using assms(3,4) by (simp add: setAddressHandler_def g del: getSession.simps)
  have c: "checkout tcfg (e_now env) (e_reply env) (e_later env) (n8n w) (sid session)
            (carried session) = (Inr response, svc1) \<longrightarrow>
          checkoutHandler tcfg (Suc fuel) env w (Inr sessionId) =
            Some ((outcome ''success'' ''Order placed successfully'')
                    \<lparr>o_orderConfirmationNumber := r_orderConfirmationNumber response,
                     o_estimatedDeliveryTime := r_estimatedDeliveryTime response\<rparr>,
                  \<lparr> store = store w, n8n = svc1 \<rparr>)"
    using assms(3,4) by (simp add: checkoutHandler_def g del: getSession.simps)
  from a b c show ?thesis by blast
qed

text \<open>The three handlers on \<open>store1\<close>, the engine answering with success.\<close>

theorem cart_handlers_return_without_persisting_witness:
  "redis_get (store world1) ''s1'' = Some session1
   \<and> \<not> expiresAt session1 < e_now env1
   \<and> status session1 = ACTIVE
   \<and> r_status okResponse = St_success
   \<and> addItems timeouts1 (e_now env1) (e_reply env1) (e_later env1) (n8n world1) (sid session1)
        (carried session1) = (Inr okResponse, requested ADD_ITEMS)
   \<and> addItemsHandler timeouts1 (Suc 0) env1 world1 (Inr ''s1'') =
        Some ((outcome ''success'' ''Items added to cart successfully'')
                \<lparr>o_cartTotal := r_cartTotal okResponse\<rparr>,
              \<lparr> store = store world1, n8n = requested ADD_ITEMS \<rparr>)
   \<and> setDeliveryAddress timeouts1 (e_now env1) (e_reply env1) (e_later env1) (n8n world1)
        (sid session1) (carried session1) = (Inr okResponse, requested SET_ADDRESS)
   \<and> setAddressHandler timeouts1 (Suc 0) env1 world1 (Inr ''s1'') =
        Some (outcome ''success'' ''Delivery address set successfully'',
              \<lparr> store = store world1, n8n = requested SET_ADDRESS \<rparr>)
   \<and> checkout timeouts1 (e_now env1) (e_reply env1) (e_later env1) (n8n world1) (sid session1)
        (carried session1) = (Inr okResponse, requested CHECKOUT)
   \<and> checkoutHandler timeouts1 (Suc 0) env1 world1 (Inr ''s1'') =
        Some ((outcome ''success'' ''Order placed successfully'')
                \<lparr>o_orderConfirmationNumber := r_orderConfirmationNumber okResponse,
                 o_estimatedDeliveryTime := r_estimatedDeliveryTime okResponse\<rparr>,
              \<lparr> store = store world1, n8n = requested CHECKOUT \<rparr>)"
proof -
  have h1: "redis_get (store world1) ''s1'' = Some session1"
    by (simp add: world1_def redis_get_def store1_def)
  have h2: "\<not> expiresAt session1 < e_now env1"
    by (simp add: session1_def env1_def)
  have h3: "status session1 = ACTIVE"
    by (simp add: session1_def)
  have h4: "r_status okResponse = St_success"
    by (simp add: okResponse_def)
  have e: "e_now env1 = 0" "e_reply env1 = Resolved okResponse" "e_later env1 = 500"
    by (simp_all add: env1_def)
  have w: "n8n world1 = N8nService_new"
    by (simp add: world1_def)
  have sid1: "sid session1 = ''s1''"
    by (simp add: session1_def)
  have cb: "circuitBreakers N8nService_new endpoint = Some closedBreaker" for endpoint
    by (simp add: N8nService_new_def closedBreaker_def)
  have pass: "callWebhook timeouts1 0 (Resolved okResponse) 500 N8nService_new endpoint
                \<lparr> p_sessionId = ''s1'', p_sessionData = Some (carried session1) \<rparr> None =
              (Inr okResponse, requested endpoint)" for endpoint
    by (subst gateway_passes_success [OF cb])
       (simp_all add: closedBreaker_def N8nService_new_def effectiveTimeout_def timeouts1_def
          requested_def)
  have a: "addItems timeouts1 (e_now env1) (e_reply env1) (e_later env1) (n8n world1) (sid session1)
        (carried session1) = (Inr okResponse, requested ADD_ITEMS)"
    by (simp add: addItems_def e w sid1 pass)
  have b: "setDeliveryAddress timeouts1 (e_now env1) (e_reply env1) (e_later env1) (n8n world1)
        (sid session1) (carried session1) = (Inr okResponse, requested SET_ADDRESS)"
    by (simp add: setDeliveryAddress_def e w sid1 pass)
  have c: "checkout timeouts1 (e_now env1) (e_reply env1) (e_later env1) (n8n world1) (sid session1)
        (carried session1) = (Inr okResponse, requested CHECKOUT)"
    by (simp add: checkout_def e w sid1 pass)
  from cart_handlers_return_without_persisting [OF h1 h2 h3 h4, of timeouts1 "requested ADD_ITEMS" 0]
    cart_handlers_return_without_persisting [OF h1 h2 h3 h4, of timeouts1 "requested SET_ADDRESS" 0]
    cart_handlers_return_without_persisting [OF h1 h2 h3 h4, of timeouts1 "requested CHECKOUT" 0]
    h1 h2 h3 h4 a b c
  show ?thesis by blast
qed

section \<open>Claims on login and its confirmation\<close>

text \<open>
  What \<open>loginHandler\<close> does when the login fails after the session was created and the
  session is still within its lifetime, and what \<open>completeLoginHandler\<close> leaves of the store
  whenever its outcome is not a success.
\<close>

lemma handleError_status [simp]: "o_status (handleError production e) = ''error''"
  by (cases e) (simp_all add: outcome_def)

lemma smembers_srem [simp]: "member \<notin> set (redis_smembers (redis_srem r user member) user)"
  by (simp add: redis_smembers_def redis_srem_def)

lemma createSession_expiresAt:
  assumes "createSession cfg sessionId now r options = (Inr session, r')"
  shows "expiresAt session =
           now + (case c_lifetimeMinutes options of None \<Rightarrow> lifetimeMinutes cfg
                  | Some m \<Rightarrow> if m = 0 then lifetimeMinutes cfg else m) * 60000"
  using assms by (auto simp: createSession_def Let_def split: if_splits)

lemma updateSession_raises:
  assumes "updateSession fuel now now' r sessionId updates = Some (Inl e, r')"
  shows "r' = r"
proof -
  from assms obtain y r1 where g: "getSession fuel now r sessionId = Some (y, r1)"
    by (auto simp: updateSession_def split: option.splits)
  from getSession_returns [OF g] g assms show ?thesis
    by (cases y) (auto simp: updateSession_def Let_def)
qed

lemma loginHandler_failure_deletes:
  assumes below: "int (getActiveSessionCount (store w)) < maxSessions cfg"
    and verdict: "login tcfg (e_now env) (e_reply env) (e_later env) (n8n w) (e_uuid env)
                    (i_manualMode input) = (verdict, svc1)"
    and failed: "case verdict of Inl error \<Rightarrow> True
                 | Inr n8nResponse \<Rightarrow> r_status n8nResponse \<noteq> St_success
                     \<and> r_status n8nResponse \<noteq> St_manual_login_started"
    and live: "\<not> e_now env + lifetimeMinutes cfg * 60000 < e_later env"
  shows "\<exists>result r'. loginHandler cfg tcfg (Suc (Suc fuel)) env w (Inr input) =
                        Some (result, \<lparr> store = r', n8n = svc1 \<rparr>)
           \<and> o_status result = ''error''
           \<and> redis_get r' (e_uuid env) = None
           \<and> e_uuid env \<notin> set (redis_smembers r' (i_username input))"
proof -
  let ?options = "\<lparr> c_username = i_username input,
                     c_status = Some (if i_manualMode input then MANUAL_LOGIN_PENDING else ACTIVE),
                     c_lifetimeMinutes = None,
                     c_metadata = i_metadata input \<rparr>"
  from createSession_below [OF below, of "e_uuid env" "e_now env" ?options]
  obtain session r1 where
    created: "createSession cfg (e_uuid env) (e_now env) (store w) ?options = (Inr session, r1)"
    and sid: "sid session = e_uuid env" and user: "username session = i_username input"
    and stored: "redis_get r1 (e_uuid env) = Some session"
    by auto
  from createSession_expiresAt [OF created] live
  have alive: "\<not> expiresAt session < e_later env" by simp
  let ?r2 = "redis_srem (redis_del r1 (e_uuid env)) (i_username input) (e_uuid env)"
  from deleteSession_live [OF stored alive, of fuel] user
  have deleted: "deleteSession (Suc (Suc fuel)) (e_later env) r1 (e_uuid env) = Some (Inr (), ?r2)"
    by simp
  have gone: "redis_get ?r2 (e_uuid env) = None
              \<and> e_uuid env \<notin> set (redis_smembers ?r2 (i_username input))"
    by simp
  show ?thesis
  proof (cases verdict)
    case (Inl error)
    with created verdict sid deleted
    have "loginHandler cfg tcfg (Suc (Suc fuel)) env w (Inr input) =
            Some (handleError (e_production env) error, \<lparr> store = ?r2, n8n = svc1 \<rparr>)"
      by (simp add: loginHandler_def loginCleanup_def del: deleteSession.simps getSession.simps)
    with gone show ?thesis by simp
  next
    case (Inr n8nResponse)
    with created verdict sid deleted failed
    have "loginHandler cfg tcfg (Suc (Suc fuel)) env w (Inr input) =
            Some ((outcome ''error'' (orElse (r_message n8nResponse) ''Login failed''))
                    \<lparr>o_code := Some ''LOGIN_FAILED''\<rparr>,
                  \<lparr> store = ?r2, n8n = svc1 \<rparr>)"
      by (simp add: loginHandler_def del: deleteSession.simps getSession.simps)
    with gone show ?thesis by (simp add: outcome_def)
  qed
qed

lemma completeLoginHandler_keeps:
  assumes run: "completeLoginHandler tcfg fuel env w (Inr sessionId) = Some (result, w')"
    and nosuccess: "o_status result \<noteq> ''success''"
  shows "store w' = store w"
proof -
  from run obtain x r1 where g: "getSession fuel (e_now env) (store w) sessionId = Some (x, r1)"
    by (auto simp: completeLoginHandler_def split: option.splits)
  from getSession_returns [OF g] have r1: "r1 = store w" by simp
  show ?thesis
  proof (cases x)
    case (Inl e)
    with run g r1 show ?thesis
      by (auto simp: completeLoginHandler_def)
  next
    case (Inr session)
    obtain verdict svc1 where v: "checkLoginStatus tcfg (e_now env) (e_reply env) (e_later env)
        (n8n w) (sid session) = (verdict, svc1)"
      by (cases "checkLoginStatus tcfg (e_now env) (e_reply env) (e_later env) (n8n w) (sid session)")
    show ?thesis
    proof (cases verdict)
      case (Inl error)
      with run g r1 Inr v show ?thesis
        by (auto simp: completeLoginHandler_def split: if_splits)
    next
      case answered: (Inr n8nResponse)
      show ?thesis
      proof (cases "r_status n8nResponse = St_success")
        case False
        with run g r1 Inr v answered show ?thesis
          by (auto simp: completeLoginHandler_def split: if_splits)
      next
        case True
        show ?thesis
        proof (cases "updateSession fuel (e_later env) (e_later env) (store w) (sid session)
                        (authUpdate n8nResponse (e_later env))")
          case None
          with run g r1 Inr v answered True nosuccess show ?thesis
            by (auto simp: completeLoginHandler_def outcome_def split: if_splits)
        next
          case (Some res)
          obtain y r2 where res: "res = (y, r2)" by (cases res)
          show ?thesis
          proof (cases y)
            case raised: (Inl error)
            with Some res have "r2 = store w" using updateSession_raises by blast
            with run g r1 Inr v answered True Some res raised show ?thesis
              by (auto simp: completeLoginHandler_def split: if_splits)
          next
            case updated: (Inr s')
            with run g r1 Inr v answered True Some res nosuccess show ?thesis
              by (auto simp: completeLoginHandler_def outcome_def split: if_splits)
          qed
        qed
      qed
    qed
  qed
qed

lemma login_timeout_raises:
  "fst (login timeouts1 now (RejectedAxios timeoutError) later N8nService_new sessionId manualMode) =
     Inl (ExternalServiceError ''n8n timeout'' (AxiosDetails timeoutError))"
proof -
  have "isCircuitOpen now N8nService_new LOGIN = (False, N8nService_new)"
    by (simp add: isCircuitOpen_def N8nService_new_def)
  then show ?thesis
    by (simp add: login_is_callWebhook callWebhook_def Let_def timeoutError_def)
qed

lemma completeLoginHandler_error_run:
  "completeLoginHandler timeouts1 (Suc 0) env2 world2 (Inr ''s2'') =
     Some ((outcome ''error'' ''Failed to complete login'')\<lparr>o_code := Some ''LOGIN_COMPLETION_FAILED''\<rparr>,
           \<lparr> store = store2, n8n = polled \<rparr>)"
proof -
  have g: "getSession (Suc 0) 1000 store2 ''s2'' = Some (Inr session2, store2)"
    by (rule getSession_live) (simp_all add: redis_get_def store2_def session2_def)
  have cb: "circuitBreakers N8nService_new LOGIN_STATUS = Some closedBreaker"
    by (simp add: N8nService_new_def closedBreaker_def)
  have call: "checkLoginStatus timeouts1 1000 (Resolved errorResponse) 2000 N8nService_new ''s2'' =
     (Inr errorResponse, polled)"
    unfolding checkLoginStatus_def
    by (subst gateway_passes_success [OF cb])
       (simp_all add: closedBreaker_def N8nService_new_def effectiveTimeout_def timeouts1_def
          polled_def)
  have s2: "sid session2 = ''s2''" "status session2 = MANUAL_LOGIN_PENDING"
    by (simp_all add: session2_def)
  have e: "e_now env2 = 1000" "e_reply env2 = Resolved errorResponse" "e_later env2 = 2000"
    by (simp_all add: env2_def)
  have w: "store world2 = store2" "n8n world2 = N8nService_new"
    by (simp_all add: world2_def)
  have er: "r_status errorResponse = St_error" "r_message errorResponse = None"
    by (simp_all add: errorResponse_def)
  show ?thesis
    by (simp add: completeLoginHandler_def e w g s2 call er orElse_def del: getSession.simps)
qed

text \<open>
  C8, as claimed: a failed login confirmation deletes the session. Evaluated on \<open>store2\<close>,
  whose session \<open>s2\<close> waits for a manual login, with an engine that answers the poll with
  status \<open>error\<close>: \<open>completeLoginHandler\<close> returns the error outcome and the store is
  \<open>store2\<close> still, with the record of \<open>s2\<close> and its entry in the owner's index.
\<close>

theorem completeLoginHandler_failure_counterexample:
  "completeLoginHandler timeouts1 (Suc 0) env2 world2 (Inr ''s2'') =
     Some ((outcome ''error'' ''Failed to complete login'')\<lparr>o_code := Some ''LOGIN_COMPLETION_FAILED''\<rparr>,
           \<lparr> store = store2, n8n = polled \<rparr>)
   \<and> redis_get store2 ''s2'' = Some session2
   \<and> redis_smembers store2 ''user@example.com'' = [''s2'']"
  using completeLoginHandler_error_run
  by (simp add: redis_get_def redis_smembers_def store2_def)

text \<open>
  C8, amended. When \<open>loginHandler\<close> has created the session and the login then fails (the
  gateway raises, or the engine answers with a status other than \<open>success\<close> and
  \<open>manual_login_started\<close>) while the session is within its lifetime, the handler returns an
  error outcome and the store it leaves has neither the record nor the owner-index entry of
  the new session. \<open>completeLoginHandler\<close> deletes nothing: whenever its outcome is not a
  success, the store is the one it started from, whatever the state of the session.
\<close>

theorem failed_login_rolls_back:
  "(int (getActiveSessionCount (store w)) < maxSessions cfg \<longrightarrow>
    login tcfg (e_now env) (e_reply env) (e_later env) (n8n w) (e_uuid env) (i_manualMode input) =
      (verdict, svc1) \<longrightarrow>
    (case verdict of Inl error \<Rightarrow> True
     | Inr n8nResponse \<Rightarrow> r_status n8nResponse \<noteq> St_success
         \<and> r_status n8nResponse \<noteq> St_manual_login_started) \<longrightarrow>
    \<not> e_now env + lifetimeMinutes cfg * 60000 < e_later env \<longrightarrow>
    (\<exists>result r'. loginHandler cfg tcfg (Suc (Suc fuel)) env w (Inr input) =
                    Some (result, \<lparr> store = r', n8n = svc1 \<rparr>)
       \<and> o_status result = ''error''
       \<and> redis_get r' (e_uuid env) = None
       \<and> e_uuid env \<notin> set (redis_smembers r' (i_username input))))
   \<and> (completeLoginHandler tcfg fuel' env' w2 (Inr sessionId) = Some (result2, w2') \<longrightarrow>
       o_status result2 \<noteq> ''success'' \<longrightarrow>
       store w2' = store w2)"
  using loginHandler_failure_deletes completeLoginHandler_keeps by blast

text \<open>
  A manual login on the empty store whose call times out, and the failed confirmation on
  \<open>store2\<close>.
\<close>

theorem failed_login_rolls_back_witness:
  "int (getActiveSessionCount (store world0)) < maxSessions config1
   \<and> login timeouts1 (e_now env3) (e_reply env3) (e_later env3) (n8n world0) (e_uuid env3)
        (i_manualMode input1) =
        (Inl (ExternalServiceError ''n8n timeout'' (AxiosDetails timeoutError)),
         snd (login timeouts1 0 (RejectedAxios timeoutError) 10000 N8nService_new ''s3'' True))
   \<and> \<not> e_now env3 + lifetimeMinutes config1 * 60000 < e_later env3
   \<and> (\<exists>result r'. loginHandler config1 timeouts1 (Suc (Suc 0)) env3 world0 (Inr input1) =
                    Some (result,
                      \<lparr> store = r',
                        n8n = snd (login timeouts1 0 (RejectedAxios timeoutError) 10000
                                     N8nService_new ''s3'' True) \<rparr>)
       \<and> o_status result = ''error''
       \<and> redis_get r' ''s3'' = None
       \<and> ''s3'' \<notin> set (redis_smembers r' ''user@example.com''))
   \<and> completeLoginHandler timeouts1 (Suc 0) env2 world2 (Inr ''s2'') =
       Some ((outcome ''error'' ''Failed to complete login'')\<lparr>o_code := Some ''LOGIN_COMPLETION_FAILED''\<rparr>,
             \<lparr> store = store2, n8n = polled \<rparr>)
   \<and> o_status ((outcome ''error'' ''Failed to complete login'')
                  \<lparr>o_code := Some ''LOGIN_COMPLETION_FAILED''\<rparr>) \<noteq> ''success''
   \<and> store \<lparr> store = store2, n8n = polled \<rparr> = store world2"
proof -
  let ?svc = "snd (login timeouts1 0 (RejectedAxios timeoutError) 10000 N8nService_new ''s3'' True)"
  let ?verdict = "Inl (ExternalServiceError ''n8n timeout'' (AxiosDetails timeoutError))
                    :: Thrown + N8nWebhookResponse"
  have h1: "int (getActiveSessionCount (store world0)) < maxSessions config1"
    by (simp add: world0_def store0_def getActiveSessionCount_def redis_keys_def config1_def)
  have e: "e_now env3 = 0" "e_reply env3 = RejectedAxios timeoutError" "e_later env3 = 10000"
      "e_uuid env3 = ''s3''"
    by (simp_all add: env3_def)
  have i: "i_manualMode input1 = True" "i_username input1 = ''user@example.com''"
    by (simp_all add: input1_def)
  have w: "n8n world0 = N8nService_new"
    by (simp add: world0_def)
  have h2: "login timeouts1 (e_now env3) (e_reply env3) (e_later env3) (n8n world0) (e_uuid env3)
        (i_manualMode input1) = (?verdict, ?svc)"
    using login_timeout_raises [of 0 10000 "''s3''" True]
    by (simp add: e i w prod_eq_iff)
  have h3: "case ?verdict of Inl error \<Rightarrow> True
     | Inr n8nResponse \<Rightarrow> r_status n8nResponse \<noteq> St_success
         \<and> r_status n8nResponse \<noteq> St_manual_login_started"
    by simp
  have h4: "\<not> e_now env3 + lifetimeMinutes config1 * 60000 < e_later env3"
    by (simp add: e config1_def)
  have h5: "completeLoginHandler timeouts1 (Suc 0) env2 world2 (Inr ''s2'') =
       Some ((outcome ''error'' ''Failed to complete login'')\<lparr>o_code := Some ''LOGIN_COMPLETION_FAILED''\<rparr>,
             \<lparr> store = store2, n8n = polled \<rparr>)"
    by (rule completeLoginHandler_error_run)
  have h6: "o_status ((outcome ''error'' ''Failed to complete login'')
                  \<lparr>o_code := Some ''LOGIN_COMPLETION_FAILED''\<rparr>) \<noteq> ''success''"
    by (simp add: outcome_def)
  note inst = failed_login_rolls_back [where w = world0 and cfg = config1 and tcfg = timeouts1
      and env = env3 and input = input1 and verdict = ?verdict and ?svc1.0 = ?svc and fuel = 0
      and fuel' = "Suc 0" and env' = env2 and ?w2.0 = world2 and sessionId = "''s2''"
      and ?result2.0 = "(outcome ''error'' ''Failed to complete login'')
                          \<lparr>o_code := Some ''LOGIN_COMPLETION_FAILED''\<rparr>"
      and w2' = "\<lparr> store = store2, n8n = polled \<rparr>"]
  from inst h1 h2 h3 h4 have a: "\<exists>result r'.
       loginHandler config1 timeouts1 (Suc (Suc 0)) env3 world0 (Inr input1) =
         Some (result, \<lparr> store = r', n8n = ?svc \<rparr>)
       \<and> o_status result = ''error''
       \<and> redis_get r' ''s3'' = None
       \<and> ''s3'' \<notin> set (redis_smembers r' ''user@example.com'')"
    by (simp add: e i)
  from inst h5 h6 have b: "store \<lparr> store = store2, n8n = polled \<rparr> = store world2"
    by blast
  from h1 h2 h4 a h5 h6 b show ?thesis by blast
qed

end
